theory Spec2Isabelle
  imports Main
begin

section \<open>The response envelope\<close>

text \<open>
  \<^verbatim>\<open>src/utils/ApiResponse.ts\<close>: the class \<^verbatim>\<open>ApiResponse\<close> with its four fields. The
  constructor's third argument has a default, so the model takes it as an option
  (\<open>None\<close>: the argument was left out). Status codes are integers. Message strings are
  kept without the emoji the source puts in front of them: a HOL string is ASCII.
\<close>

record 'a ApiResponse =
  statusCode :: int
  data :: 'a
  message :: string
  success :: bool

definition new_ApiResponse :: "int \<Rightarrow> 'a \<Rightarrow> string option \<Rightarrow> 'a ApiResponse" where
  "new_ApiResponse code payload msg =
     \<lparr> statusCode = code,
       data = payload,
       message = (case msg of None \<Rightarrow> ''Success'' | Some m \<Rightarrow> m),
       success = (code < 400) \<rparr>"

section \<open>Requests, replies and exceptions\<close>

text \<open>
  An \<^verbatim>\<open>ObjectId\<close> is a number here. A route or query parameter that names a document
  is absent (undefined or empty), fails \<^verbatim>\<open>isValidObjectId\<close>, or is a valid id.
\<close>

type_synonym oid = nat

datatype id_param = Absent | Malformed | Valid oid

text \<open>The exceptions the modelled code can raise, with the text of their \<^verbatim>\<open>message\<close>.\<close>

datatype exn =
    JsonWebTokenError
  | TokenExpiredError
  | ERR_HTTP_HEADERS_SENT
  | TypeError
  | ENOENT
  | SyntaxError
  | MongoServerError
  | Thrown_ApiError int string

fun exn_message :: "exn \<Rightarrow> string" where
  "exn_message JsonWebTokenError = ''invalid signature''"
| "exn_message TokenExpiredError = ''jwt expired''"
| "exn_message ERR_HTTP_HEADERS_SENT = ''Cannot set headers after they are sent to the client''"
| "exn_message TypeError = ''Cannot read properties of null''"
| "exn_message ENOENT = ''ENOENT: no such file or directory''"
| "exn_message SyntaxError = ''Invalid regular expression''"
| "exn_message MongoServerError = ''invalid pipeline stage argument''"
| "exn_message (Thrown_ApiError code msg) = msg"

section \<open>Tokens\<close>

text \<open>
  \<^verbatim>\<open>jwt.sign\<close> and \<^verbatim>\<open>jwt.verify\<close> belong to a library. A token is either a string that
  the library signed with one of the three secrets (its payload's \<^verbatim>\<open>_id\<close>, its issue
  time and its expiry time, in seconds), or any other string. Verification under a
  secret succeeds exactly on an unexpired token signed with that secret and returns the
  payload's \<^verbatim>\<open>_id\<close>.
\<close>

datatype secret = ACCESS_TOKEN_SECRET | REFRESH_TOKEN_SECRET | EMAIL_TOKEN_SECRET

datatype token = Jwt secret "oid option" nat nat | Opaque string

definition truthy :: "token \<Rightarrow> bool" where
  "truthy t = (t \<noteq> Opaque [])"

definition jwt_sign :: "oid \<Rightarrow> secret \<Rightarrow> nat \<Rightarrow> nat \<Rightarrow> token" where
  "jwt_sign i s expiresIn now = Jwt s (Some i) now (now + expiresIn)"

definition jwt_verify :: "token \<Rightarrow> secret \<Rightarrow> nat \<Rightarrow> exn + oid option" where
  "jwt_verify t s now =
     (case t of
        Opaque w \<Rightarrow> Inl JsonWebTokenError
      | Jwt s' i iat expiry \<Rightarrow>
          if s' \<noteq> s then Inl JsonWebTokenError
          else if expiry \<le> now then Inl TokenExpiredError
          else Inr i)"

text \<open>The process environment: the three expiry durations, in seconds.\<close>

record env =
  ACCESS_TOKEN_EXPIRY :: nat
  REFRESH_TOKEN_EXPIRY :: nat
  EMAIL_TOKEN_EXPIRY :: nat

section \<open>Documents and collections\<close>

text \<open>
  The documents, with the fields the modelled handlers read or write (the password
  hash and the watch history are left out). A collection is the list of its documents
  in insertion order; \<^verbatim>\<open>findOne\<close> returns the first match.
\<close>

record image =
  url :: string
  publicId :: string

record user =
  user_id :: oid
  username :: string
  email :: string
  fullName :: string
  avatar :: image
  coverImage :: image
  refreshToken :: "token option"
  emailToken :: "token option"
  isVerifiedEmail :: bool

record video =
  video_id :: oid
  videoFile :: image
  thumbnail :: image
  title :: string
  description :: string
  isPublished :: bool
  video_owner :: oid

record comment =
  comment_id :: oid
  comment_content :: string
  comment_video :: oid
  comment_owner :: oid

record tweet =
  tweet_id :: oid
  tweet_content :: string
  tweet_owner :: oid

record playlist =
  playlist_id :: oid
  playlist_name :: string
  playlist_description :: string
  playlist_videos :: "oid list"
  playlist_owner :: oid

record subscription =
  subscription_id :: oid
  subscriber :: oid
  channel :: oid

record like =
  like_id :: oid
  like_video :: "oid option"
  like_comment :: "oid option"
  like_tweet :: "oid option"
  likedBy :: oid

text \<open>
  The state of the system: the seven collections, the id the driver gives the next
  created document, the assets held by the remote object store (by public id) and the
  temporary files on the local disk (by path).
\<close>

record database =
  users :: "user list"
  videos :: "video list"
  comments :: "comment list"
  tweets :: "tweet list"
  playlists :: "playlist list"
  subscriptions :: "subscription list"
  likes :: "like list"
  next_oid :: oid
  cloud :: "string set"
  disk :: "string set"

text \<open>
  The model operations of the document mapper, for a collection keyed by \<open>key\<close>:
  \<^verbatim>\<open>findById\<close>, \<^verbatim>\<open>doc.save()\<close> (the stored document with the same id is replaced) and
  \<^verbatim>\<open>deleteOne({_id})\<close>, which removes the first document with that id and reports how
  many it removed.
\<close>

definition findById :: "('d \<Rightarrow> oid) \<Rightarrow> 'd list \<Rightarrow> oid \<Rightarrow> 'd option" where
  "findById key docs i = find (\<lambda>d. key d = i) docs"

definition save :: "('d \<Rightarrow> oid) \<Rightarrow> 'd \<Rightarrow> 'd list \<Rightarrow> 'd list" where
  "save key doc docs = map (\<lambda>d. if key d = key doc then doc else d) docs"

fun remove_first :: "('d \<Rightarrow> bool) \<Rightarrow> 'd list \<Rightarrow> 'd list" where
  "remove_first P [] = []"
| "remove_first P (d # ds) = (if P d then ds else d # remove_first P ds)"

definition deleteOne :: "('d \<Rightarrow> oid) \<Rightarrow> oid \<Rightarrow> 'd list \<Rightarrow> 'd list \<times> nat" where
  "deleteOne key i docs =
     (case find (\<lambda>d. key d = i) docs of
        None \<Rightarrow> (docs, 0)
      | Some d \<Rightarrow> (remove_first (\<lambda>d. key d = i) docs, 1))"

section \<open>Replies\<close>

text \<open>
  What a handler puts in the envelope's \<^verbatim>\<open>data\<close>, the two bodies a handler sends (an
  \<^verbatim>\<open>ApiError\<close> with its code and message, or an \<^verbatim>\<open>ApiResponse\<close>), and the reply the
  client receives: \<^verbatim>\<open>response.status(n).json(body)\<close>.
\<close>

record owner_view =
  owner_fullName :: string
  owner_username :: string
  owner_avatar :: image

record channel_profile =
  profile_fullName :: string
  profile_username :: string
  profile_email :: string
  profile_avatar :: image
  profile_coverImage :: image
  subscriberCount :: nat
  channelsSubscribedToCount :: nat
  isSubscribed :: bool

datatype payload =
    Empty_object
  | Null
  | Token_pair token token
  | User_doc user
  | Video_doc video
  | Comment_doc comment
  | Tweet_doc tweet
  | Playlist_doc playlist
  | Profile_doc channel_profile
  | Video_list "(video \<times> owner_view) list"
  | Tweet_list "(tweet \<times> owner_view) list"

datatype body = ApiError int string | Envelope "payload ApiResponse"

record reply =
  http_status :: int
  http_body :: body

definition respond :: "int \<Rightarrow> body \<Rightarrow> reply" where
  "respond n b = \<lparr> http_status = n, http_body = b \<rparr>"

text \<open>
  The framework's response object, for the two handlers that can reach a second send.
  \<^verbatim>\<open>status\<close> only stores the code. \<^verbatim>\<open>cookie\<close> and \<^verbatim>\<open>json\<close> set headers, which the
  framework refuses with \<^verbatim>\<open>ERR_HTTP_HEADERS_SENT\<close> once a reply has been sent: the
  client keeps the first reply.
\<close>

record response =
  res_status :: int
  res_cookies :: "(string \<times> token) list"
  sent :: "reply option"

definition fresh_response :: response where
  "fresh_response = \<lparr> res_status = 200, res_cookies = [], sent = None \<rparr>"

definition status :: "int \<Rightarrow> response \<Rightarrow> response" where
  "status n res = res\<lparr> res_status := n \<rparr>"

definition cookie :: "string \<Rightarrow> token \<Rightarrow> response \<Rightarrow> exn + response" where
  "cookie name v res =
     (case sent res of
        Some r \<Rightarrow> Inl ERR_HTTP_HEADERS_SENT
      | None \<Rightarrow> Inr (res\<lparr> res_cookies := res_cookies res @ [(name, v)] \<rparr>))"

definition json :: "body \<Rightarrow> response \<Rightarrow> exn + response" where
  "json b res =
     (case sent res of
        Some r \<Rightarrow> Inl ERR_HTTP_HEADERS_SENT
      | None \<Rightarrow> Inr (res\<lparr> sent := Some (respond (res_status res) b) \<rparr>))"

text \<open>\<^verbatim>\<open>response.status(n).json(b)\<close>: the exception raised, if any, and the response object after.\<close>

definition send :: "int \<Rightarrow> body \<Rightarrow> response \<Rightarrow> exn option \<times> response" where
  "send n b res =
     (case json b (status n res) of
        Inl x \<Rightarrow> (Some x, status n res)
      | Inr res' \<Rightarrow> (None, res'))"

section \<open>Account directory: tokens and email confirmation\<close>

text \<open>\<^verbatim>\<open>src/models/user.model.ts\<close>: the three token methods of an account.\<close>

definition generateAccessToken :: "env \<Rightarrow> nat \<Rightarrow> user \<Rightarrow> token" where
  "generateAccessToken e now u = jwt_sign (user_id u) ACCESS_TOKEN_SECRET (ACCESS_TOKEN_EXPIRY e) now"

definition generateRefreshToken :: "env \<Rightarrow> nat \<Rightarrow> user \<Rightarrow> token" where
  "generateRefreshToken e now u = jwt_sign (user_id u) REFRESH_TOKEN_SECRET (REFRESH_TOKEN_EXPIRY e) now"

definition generateEmailToken :: "env \<Rightarrow> nat \<Rightarrow> user \<Rightarrow> token" where
  "generateEmailToken e now u = jwt_sign (user_id u) EMAIL_TOKEN_SECRET (EMAIL_TOKEN_EXPIRY e) now"

text \<open>
  \<^verbatim>\<open>user.controller.ts\<close>, \<^verbatim>\<open>generateAccessAndRefreshToken\<close>: loads the account, mints the
  pair, stores the refresh token on the account and saves it. Anything thrown inside is
  replaced by \<^verbatim>\<open>ApiError(500)\<close>.
\<close>

definition generateAccessAndRefreshToken ::
  "env \<Rightarrow> nat \<Rightarrow> database \<Rightarrow> oid \<Rightarrow> (exn + token \<times> token) \<times> database" where
  "generateAccessAndRefreshToken e now db userId =
     (case findById user_id (users db) userId of
        None \<Rightarrow> (Inl (Thrown_ApiError 500 ''Something went wrong while generating tokens.''), db)
      | Some u \<Rightarrow>
          (Inr (generateAccessToken e now u, generateRefreshToken e now u),
           db\<lparr> users := save user_id (u\<lparr> refreshToken := Some (generateRefreshToken e now u) \<rparr>) (users db) \<rparr>))"

text \<open>\<^verbatim>\<open>a || b\<close> on two optional strings.\<close>

definition js_or :: "token option \<Rightarrow> token option \<Rightarrow> token option" where
  "js_or a b = (case a of None \<Rightarrow> b | Some t \<Rightarrow> if truthy t then Some t else b)"

text \<open>\<^verbatim>\<open>error?.message || fallback\<close>.\<close>

definition message_or :: "exn \<Rightarrow> string \<Rightarrow> string" where
  "message_or x fallback = (if exn_message x = [] then fallback else exn_message x)"

text \<open>
  \<^verbatim>\<open>refreshAccessToken\<close>, lines 310 to 372. The body of the \<^verbatim>\<open>try\<close> block first: it
  returns the exception it raised (if any), the response object and the database. The
  branch at lines 343 to 347 sends the 401 and, having no \<^verbatim>\<open>return\<close>, goes on.
\<close>

definition refreshAccessToken_try ::
  "env \<Rightarrow> nat \<Rightarrow> token option \<Rightarrow> token option \<Rightarrow> response \<Rightarrow> database
     \<Rightarrow> exn option \<times> response \<times> database" where
  "refreshAccessToken_try e now cookieToken bodyToken res db =
     (case js_or cookieToken bodyToken of
        None \<Rightarrow> (case send 401 (ApiError 401 ''Unauthorized request.'') res of (x, r) \<Rightarrow> (x, r, db))
      | Some incomingRefreshToken \<Rightarrow>
          if \<not> truthy incomingRefreshToken
          then (case send 401 (ApiError 401 ''Unauthorized request.'') res of (x, r) \<Rightarrow> (x, r, db))
          else
            (case jwt_verify incomingRefreshToken REFRESH_TOKEN_SECRET now of
               Inl x \<Rightarrow> (Some x, res, db)
             | Inr None \<Rightarrow>
                 (case send 401 (ApiError 401 ''Invalid refresh token.'') res of (x, r) \<Rightarrow> (x, r, db))
             | Inr (Some i) \<Rightarrow>
                 (case findById user_id (users db) i of
                    None \<Rightarrow>
                      (case send 401 (ApiError 401 ''Invalid refresh token.'') res of (x, r) \<Rightarrow> (x, r, db))
                  | Some u \<Rightarrow>
                      (case (if Some incomingRefreshToken \<noteq> refreshToken u
                             then send 401 (ApiError 401 ''Refresh token is expired.'') res
                             else (None, res)) of
                         (Some x, res1) \<Rightarrow> (Some x, res1, db)
                       | (None, res1) \<Rightarrow>
                           (case generateAccessAndRefreshToken e now db (user_id u) of
                              (Inl x, db1) \<Rightarrow> (Some x, res1, db1)
                            | (Inr (accessToken, newRefreshToken), db1) \<Rightarrow>
                                (case cookie ''accessToken'' accessToken (status 200 res1) of
                                   Inl x \<Rightarrow> (Some x, status 200 res1, db1)
                                 | Inr res2 \<Rightarrow>
                                     (case cookie ''refreshToken'' newRefreshToken res2 of
                                        Inl x \<Rightarrow> (Some x, res2, db1)
                                      | Inr res3 \<Rightarrow>
                                          (case json (Envelope (new_ApiResponse 200
                                                  (Token_pair accessToken newRefreshToken)
                                                  (Some ''Access token refreshed.''))) res3 of
                                             Inl x \<Rightarrow> (Some x, res3, db1)
                                           | Inr res4 \<Rightarrow> (None, res4, db1)))))))))"

text \<open>
  The handler: the \<^verbatim>\<open>try\<close> block on a fresh response object, and the \<^verbatim>\<open>catch\<close> that
  answers 401 with the exception's message. The first component of the result is the
  exception that leaves the handler, if any.
\<close>

definition refreshAccessToken ::
  "env \<Rightarrow> nat \<Rightarrow> token option \<Rightarrow> token option \<Rightarrow> database \<Rightarrow> exn option \<times> response \<times> database" where
  "refreshAccessToken e now cookieToken bodyToken db =
     (case refreshAccessToken_try e now cookieToken bodyToken fresh_response db of
        (None, res, db') \<Rightarrow> (None, res, db')
      | (Some error, res, db') \<Rightarrow>
          (case send 401 (ApiError 401 (message_or error ''Refresh token is expired.'')) res of
             (x, res') \<Rightarrow> (x, res', db')))"

text \<open>
  \<^verbatim>\<open>verifyEmailToken\<close>, lines 38 to 55: whatever is thrown inside, the missing \<^verbatim>\<open>_id\<close>
  included, is thrown again as \<^verbatim>\<open>ApiError(401)\<close> with the same message.
\<close>

definition verifyEmailToken :: "token \<Rightarrow> nat \<Rightarrow> exn + oid" where
  "verifyEmailToken t now =
     (case jwt_verify t EMAIL_TOKEN_SECRET now of
        Inl error \<Rightarrow> Inl (Thrown_ApiError 401 (message_or error ''Invalid email token''))
      | Inr None \<Rightarrow> Inl (Thrown_ApiError 401 ''Token is expired or invalid.'')
      | Inr (Some i) \<Rightarrow> Inr i)"

text \<open>
  \<^verbatim>\<open>confirmEmail\<close>, lines 166 to 208. The query's token is \<open>None\<close> when it is missing or
  not a string. The branch at lines 194 to 198 sends the 401 and, having no
  \<^verbatim>\<open>return\<close>, goes on to mark the account verified.
\<close>

definition confirmEmail :: "nat \<Rightarrow> token option \<Rightarrow> database \<Rightarrow> exn option \<times> response \<times> database" where
  "confirmEmail now emailTokenParam db =
     (case emailTokenParam of
        None \<Rightarrow>
          (case send 400 (ApiError 400 ''Email token is needed.'') fresh_response of (x, r) \<Rightarrow> (x, r, db))
      | Some t \<Rightarrow>
          if \<not> truthy t
          then (case send 400 (ApiError 400 ''Email token is needed.'') fresh_response of (x, r) \<Rightarrow> (x, r, db))
          else
            (case verifyEmailToken t now of
               Inl x \<Rightarrow> (Some x, fresh_response, db)
             | Inr i \<Rightarrow>
                 (case findById user_id (users db) i of
                    None \<Rightarrow>
                      (case send 401 (ApiError 401 ''Token is expired or invalid.'') fresh_response of
                         (x, r) \<Rightarrow> (x, r, db))
                  | Some u \<Rightarrow>
                      if isVerifiedEmail u
                      then (case send 400 (ApiError 401 ''Email is already verified.'') fresh_response of
                              (x, r) \<Rightarrow> (x, r, db))
                      else
                        (case (if Some t \<noteq> emailToken u
                               then send 401 (ApiError 401 ''Email token is expired.'') fresh_response
                               else (None, fresh_response)) of
                           (Some x, res1) \<Rightarrow> (Some x, res1, db)
                         | (None, res1) \<Rightarrow>
                             (case send 201 (Envelope (new_ApiResponse 200 Empty_object
                                       (Some ''User email verified Successfully.''))) res1 of
                                (x, r) \<Rightarrow>
                                  (x, r, db\<lparr> users := save user_id
                                          (u\<lparr> isVerifiedEmail := True, emailToken := Some (Opaque []) \<rparr>)
                                          (users db) \<rparr>))))))"

section \<open>Social graph: subscriptions and likes\<close>

text \<open>
  \<^verbatim>\<open>subscription.controller.ts\<close>, \<^verbatim>\<open>toggleSubscription\<close>, lines 10 to 66. The caller is
  the account the authorization guard attached to the request. \<^verbatim>\<open>Subscription.create\<close>
  returns the created document, so the check of its result never fails; its branch has
  no counterpart here.
\<close>

definition toggleSubscription :: "database \<Rightarrow> user \<Rightarrow> id_param \<Rightarrow> reply \<times> database" where
  "toggleSubscription db request_user channelId =
     (case channelId of
        Valid cid \<Rightarrow>
          (case findById user_id (users db) cid of
             None \<Rightarrow> (respond 404 (ApiError 404 ''No channel found.''), db)
           | Some ch \<Rightarrow>
               (case find (\<lambda>s. subscriber s = user_id request_user \<and> channel s = user_id ch)
                       (subscriptions db) of
                  None \<Rightarrow>
                    (respond 200 (Envelope (new_ApiResponse 200 Empty_object (Some ''Channel subscribed.''))),
                     db\<lparr> subscriptions := subscriptions db @
                           [\<lparr> subscription_id = next_oid db,
                              subscriber = user_id request_user,
                              channel = user_id ch \<rparr>],
                         next_oid := Suc (next_oid db) \<rparr>)
                | Some isAlreadySubscribed \<Rightarrow>
                    (case deleteOne subscription_id (subscription_id isAlreadySubscribed) (subscriptions db) of
                       (remaining, deletedCount) \<Rightarrow>
                         if deletedCount \<noteq> 1
                         then (respond 500 (ApiError 500 ''Error unsubscribing channel..''),
                               db\<lparr> subscriptions := remaining \<rparr>)
                         else (respond 200 (Envelope (new_ApiResponse 200 Empty_object
                                                        (Some ''Channel unsubscribed.''))),
                               db\<lparr> subscriptions := remaining \<rparr>))))
      | Malformed \<Rightarrow> (respond 400 (ApiError 400 ''Channel id is not valid.''), db)
      | Absent \<Rightarrow> (respond 400 (ApiError 400 ''Channel id is not valid.''), db))"

text \<open>
  The like handlers (the like controller, lines 134 to 295 of
  \<^verbatim>\<open>dashboard.controller.ts\<close>): one per kind of target, all of the same shape.
\<close>

definition toggleVideoLike :: "database \<Rightarrow> user \<Rightarrow> id_param \<Rightarrow> reply \<times> database" where
  "toggleVideoLike db request_user videoId =
     (case videoId of
        Valid vid \<Rightarrow>
          (case findById video_id (videos db) vid of
             None \<Rightarrow> (respond 404 (ApiError 404 ''No video found''), db)
           | Some v \<Rightarrow>
               (case find (\<lambda>l. like_video l = Some vid \<and> likedBy l = user_id request_user) (likes db) of
                  None \<Rightarrow>
                    (respond 200 (Envelope (new_ApiResponse 200 Empty_object (Some ''Video liked successfully.''))),
                     db\<lparr> likes := likes db @
                           [\<lparr> like_id = next_oid db, like_video = Some vid, like_comment = None,
                              like_tweet = None, likedBy = user_id request_user \<rparr>],
                         next_oid := Suc (next_oid db) \<rparr>)
                | Some likedVideo \<Rightarrow>
                    (case deleteOne like_id (like_id likedVideo) (likes db) of
                       (remaining, deletedCount) \<Rightarrow>
                         if deletedCount = 0
                         then (respond 500 (ApiError 500 ''Error while like.''), db\<lparr> likes := remaining \<rparr>)
                         else (respond 200 (Envelope (new_ApiResponse 200 Empty_object
                                                        (Some ''Video like removed successfully.''))),
                               db\<lparr> likes := remaining \<rparr>))))
      | Malformed \<Rightarrow> (respond 400 (ApiError 400 ''Not a valid video id.''), db)
      | Absent \<Rightarrow> (respond 400 (ApiError 400 ''Not a valid video id.''), db))"

definition toggleCommentLike :: "database \<Rightarrow> user \<Rightarrow> id_param \<Rightarrow> reply \<times> database" where
  "toggleCommentLike db request_user commentId =
     (case commentId of
        Valid cid \<Rightarrow>
          (case findById comment_id (comments db) cid of
             None \<Rightarrow> (respond 404 (ApiError 404 ''No comment found''), db)
           | Some c \<Rightarrow>
               (case find (\<lambda>l. like_comment l = Some cid \<and> likedBy l = user_id request_user) (likes db) of
                  None \<Rightarrow>
                    (respond 200 (Envelope (new_ApiResponse 200 Empty_object (Some ''Comment liked successfully.''))),
                     db\<lparr> likes := likes db @
                           [\<lparr> like_id = next_oid db, like_video = None, like_comment = Some cid,
                              like_tweet = None, likedBy = user_id request_user \<rparr>],
                         next_oid := Suc (next_oid db) \<rparr>)
                | Some likedComment \<Rightarrow>
                    (case deleteOne like_id (like_id likedComment) (likes db) of
                       (remaining, deletedCount) \<Rightarrow>
                         if deletedCount = 0
                         then (respond 500 (ApiError 500 ''Error while like.''), db\<lparr> likes := remaining \<rparr>)
                         else (respond 200 (Envelope (new_ApiResponse 200 Empty_object
                                                        (Some ''Comment like removed successfully.''))),
                               db\<lparr> likes := remaining \<rparr>))))
      | Malformed \<Rightarrow> (respond 400 (ApiError 400 ''Not a valid video id.''), db)
      | Absent \<Rightarrow> (respond 400 (ApiError 400 ''Not a valid video id.''), db))"

definition toggleTweetLike :: "database \<Rightarrow> user \<Rightarrow> id_param \<Rightarrow> reply \<times> database" where
  "toggleTweetLike db request_user tweetId =
     (case tweetId of
        Valid tid \<Rightarrow>
          (case findById tweet_id (tweets db) tid of
             None \<Rightarrow> (respond 404 (ApiError 404 ''No tweet found''), db)
           | Some t \<Rightarrow>
               (case find (\<lambda>l. like_tweet l = Some tid \<and> likedBy l = user_id request_user) (likes db) of
                  None \<Rightarrow>
                    (respond 200 (Envelope (new_ApiResponse 200 Empty_object (Some ''Tweet liked successfully.''))),
                     db\<lparr> likes := likes db @
                           [\<lparr> like_id = next_oid db, like_video = None, like_comment = None,
                              like_tweet = Some tid, likedBy = user_id request_user \<rparr>],
                         next_oid := Suc (next_oid db) \<rparr>)
                | Some likedTweet \<Rightarrow>
                    (case deleteOne like_id (like_id likedTweet) (likes db) of
                       (remaining, deletedCount) \<Rightarrow>
                         if deletedCount = 0
                         then (respond 500 (ApiError 500 ''Error while like.''), db\<lparr> likes := remaining \<rparr>)
                         else (respond 200 (Envelope (new_ApiResponse 200 Empty_object
                                                        (Some ''Tweet like removed successfully.''))),
                               db\<lparr> likes := remaining \<rparr>))))
      | Malformed \<Rightarrow> (respond 400 (ApiError 400 ''Not a valid tweet id.''), db)
      | Absent \<Rightarrow> (respond 400 (ApiError 400 ''Not a valid tweet id.''), db))"

text \<open>
  The edge an edge document stands for, and the well-formed edge collections: ids are
  unique and older than the next id, no two documents stand for the same edge, and a
  like has exactly one target.
\<close>

definition subscription_edge :: "subscription \<Rightarrow> oid \<times> oid" where
  "subscription_edge s = (subscriber s, channel s)"

definition like_edge :: "like \<Rightarrow> oid \<times> oid option \<times> oid option \<times> oid option" where
  "like_edge l = (likedBy l, like_video l, like_comment l, like_tweet l)"

definition one_target :: "like \<Rightarrow> bool" where
  "one_target l =
     (case (like_video l, like_comment l, like_tweet l) of
        (Some v, None, None) \<Rightarrow> True
      | (None, Some c, None) \<Rightarrow> True
      | (None, None, Some t) \<Rightarrow> True
      | _ \<Rightarrow> False)"

definition wf_subscriptions :: "database \<Rightarrow> bool" where
  "wf_subscriptions db =
     (distinct (map subscription_id (subscriptions db))
      \<and> distinct (map subscription_edge (subscriptions db))
      \<and> list_all (\<lambda>s. subscription_id s < next_oid db) (subscriptions db))"

definition wf_likes :: "database \<Rightarrow> bool" where
  "wf_likes db =
     (distinct (map like_id (likes db))
      \<and> distinct (map like_edge (likes db))
      \<and> list_all (\<lambda>l. like_id l < next_oid db) (likes db)
      \<and> list_all one_target (likes db))"

text \<open>
  The set of edges a collection stands for, and the number of documents that stand for
  one edge.
\<close>

definition subscription_edges :: "database \<Rightarrow> (oid \<times> oid) set" where
  "subscription_edges db = set (map subscription_edge (subscriptions db))"

definition subscription_documents :: "database \<Rightarrow> oid \<times> oid \<Rightarrow> nat" where
  "subscription_documents db edge = length (filter (\<lambda>s. subscription_edge s = edge) (subscriptions db))"

definition like_edges :: "database \<Rightarrow> (oid \<times> oid option \<times> oid option \<times> oid option) set" where
  "like_edges db = set (map like_edge (likes db))"

definition like_documents :: "database \<Rightarrow> oid \<times> oid option \<times> oid option \<times> oid option \<Rightarrow> nat" where
  "like_documents db edge = length (filter (\<lambda>l. like_edge l = edge) (likes db))"

section \<open>Read aggregation: the channel profile\<close>

text \<open>
  The aggregation of \<^verbatim>\<open>getUserChannelProfile\<close> (\<^verbatim>\<open>user.controller.ts\<close>, lines 535 to
  610) works on documents as the database stores them: a list of named fields. A
  subscription document has the fields that \<^verbatim>\<open>toggleSubscription\<close> creates it with. A
  value is an \<^verbatim>\<open>ObjectId\<close> or the string that \<^verbatim>\<open>request.user.id\<close> renders an id as; the
  database's \<^verbatim>\<open>$in\<close> compares values with their types.
\<close>

datatype bson = ObjectId oid | Id_string oid

type_synonym document = "(string \<times> bson) list"

definition subscription_document :: "subscription \<Rightarrow> document" where
  "subscription_document s =
     [(''_id'', ObjectId (subscription_id s)),
      (''subscriber'', ObjectId (subscriber s)),
      (''channel'', ObjectId (channel s))]"

text \<open>\<^verbatim>\<open>$lookup\<close> from the subscriptions on a local \<^verbatim>\<open>_id\<close> and a foreign field.\<close>

definition lookup_subscriptions :: "database \<Rightarrow> oid \<Rightarrow> string \<Rightarrow> document list" where
  "lookup_subscriptions db localId foreignField =
     filter (\<lambda>d. map_of d foreignField = Some (ObjectId localId))
       (map subscription_document (subscriptions db))"

text \<open>A path \<^verbatim>\<open>$array.field\<close>: the field's value in each element that has the field.\<close>

definition field_path :: "document list \<Rightarrow> string \<Rightarrow> bson list" where
  "field_path docs field = List.map_filter (\<lambda>d. map_of d field) docs"

definition is_space :: "char \<Rightarrow> bool" where
  "is_space c = (c \<in> set [CHR '' '', CHR 0x09, CHR 0x0A, CHR 0x0B, CHR 0x0C, CHR 0x0D])"

definition trim :: "string \<Rightarrow> string" where
  "trim w = rev (dropWhile is_space (rev (dropWhile is_space w)))"

definition toLowerCase :: "string \<Rightarrow> string" where
  "toLowerCase w =
     map (\<lambda>c. if 65 \<le> (of_char c :: nat) \<and> (of_char c :: nat) \<le> 90
               then char_of (of_char c + 32 :: nat) else c) w"

definition getUserChannelProfile :: "database \<Rightarrow> user \<Rightarrow> string \<Rightarrow> reply" where
  "getUserChannelProfile db request_user usernameParam =
     (if trim usernameParam = []
      then respond 400 (ApiError 400 ''Username is missing.'')
      else
        (case filter (\<lambda>u. username u = toLowerCase usernameParam) (users db) of
           [] \<Rightarrow> respond 404 (ApiError 404 ''Channel does not exists'')
         | ch # others \<Rightarrow>
             (let subscribers = lookup_subscriptions db (user_id ch) ''channel'';
                  subscribedTo = lookup_subscriptions db (user_id ch) ''subscriber''
              in respond 200 (Envelope (new_ApiResponse 200
                   (Profile_doc
                     \<lparr> profile_fullName = fullName ch,
                       profile_username = username ch,
                       profile_email = email ch,
                       profile_avatar = avatar ch,
                       profile_coverImage = coverImage ch,
                       subscriberCount = length subscribers,
                       channelsSubscribedToCount = length subscribedTo,
                       isSubscribed =
                         (if Id_string (user_id request_user) \<in> set (field_path subscribers ''subscribe'')
                          then True else False) \<rparr>)
                   (Some ''User channel fetched successfully''))))))"

section \<open>Media asset delegate\<close>

text \<open>
  The cloudinary utilities (lines 80 to 122 of \<^verbatim>\<open>dashboard.controller.ts\<close>). What the
  remote store answers is not decided by the program, so each call takes the store's
  outcome as an argument: an upload is stored (and answers with the new asset's url and
  public id) or fails in transport; a destroy removes the asset or fails.
  \<^verbatim>\<open>fs.unlinkSync\<close> removes a file that exists and raises \<^verbatim>\<open>ENOENT\<close> otherwise.
\<close>

record upload_response =
  response_url :: string
  public_id :: string

datatype upload_outcome = Uploaded upload_response | Transport_failure

datatype destroy_outcome = Destroyed | Destroy_failure

definition unlinkSync :: "string \<Rightarrow> database \<Rightarrow> exn + database" where
  "unlinkSync path db =
     (if path \<in> disk db then Inr (db\<lparr> disk := disk db - {path} \<rparr>) else Inl ENOENT)"

text \<open>
  \<^verbatim>\<open>uploadOnCloudinary\<close>: an empty path returns null at once. Otherwise the upload runs
  and the file is unlinked, inside the \<^verbatim>\<open>try\<close>; whatever is thrown there lands in the
  \<^verbatim>\<open>catch\<close>, which unlinks the file and returns null. An exception of the \<^verbatim>\<open>catch\<close>
  itself reaches the caller.
\<close>

definition uploadOnCloudinary ::
  "database \<Rightarrow> upload_outcome \<Rightarrow> string \<Rightarrow> string \<Rightarrow> (exn + upload_response option) \<times> database" where
  "uploadOnCloudinary db outcome localFilePath folderName =
     (if localFilePath = [] then (Inr None, db)
      else
        (case outcome of
           Uploaded r \<Rightarrow>
             (case unlinkSync localFilePath (db\<lparr> cloud := insert (public_id r) (cloud db) \<rparr>) of
                Inr db' \<Rightarrow> (Inr (Some r), db')
              | Inl error \<Rightarrow>
                  (case unlinkSync localFilePath (db\<lparr> cloud := insert (public_id r) (cloud db) \<rparr>) of
                     Inr db' \<Rightarrow> (Inr None, db')
                   | Inl x \<Rightarrow> (Inl x, db\<lparr> cloud := insert (public_id r) (cloud db) \<rparr>)))
         | Transport_failure \<Rightarrow>
             (case unlinkSync localFilePath db of
                Inr db' \<Rightarrow> (Inr None, db')
              | Inl x \<Rightarrow> (Inl x, db))))"

text \<open>\<^verbatim>\<open>removeFromCloudinary\<close>: a failure of the store is logged and swallowed.\<close>

definition removeFromCloudinary :: "string \<Rightarrow> string \<Rightarrow> destroy_outcome \<Rightarrow> database \<Rightarrow> database" where
  "removeFromCloudinary thePublicId resource_type outcome db =
     (case outcome of
        Destroyed \<Rightarrow> db\<lparr> cloud := cloud db - {thePublicId} \<rparr>
      | Destroy_failure \<Rightarrow> db)"

section \<open>Account directory: image replacement\<close>

text \<open>
  \<^verbatim>\<open>findByIdAndUpdate(id, {$set: ...}, {new: true})\<close> on the accounts: the updated
  document, or null when there is none.
\<close>

definition findByIdAndUpdate_user :: "oid \<Rightarrow> (user \<Rightarrow> user) \<Rightarrow> database \<Rightarrow> payload \<times> database" where
  "findByIdAndUpdate_user i change db =
     (case findById user_id (users db) i of
        None \<Rightarrow> (Null, db)
      | Some u \<Rightarrow> (User_doc (change u), db\<lparr> users := save user_id (change u) (users db) \<rparr>))"

text \<open>
  \<^verbatim>\<open>updateUserAvatar\<close> and \<^verbatim>\<open>updateUserCoverImage\<close>, \<^verbatim>\<open>user.controller.ts\<close> lines 449
  to 533. The file's path is \<open>None\<close> when the request carries no file. Reading
  \<^verbatim>\<open>avatar.url\<close> of a null upload result raises \<^verbatim>\<open>TypeError\<close>.
\<close>

definition updateUserAvatar ::
  "database \<Rightarrow> user \<Rightarrow> string option \<Rightarrow> upload_outcome \<Rightarrow> destroy_outcome \<Rightarrow> (exn + reply) \<times> database" where
  "updateUserAvatar db request_user file_path uploading destroying =
     (case file_path of
        None \<Rightarrow> (Inr (respond 400 (ApiError 400 ''Avatar is required.'')), db)
      | Some avatarLocalPath \<Rightarrow>
          if avatarLocalPath = [] then (Inr (respond 400 (ApiError 400 ''Avatar is required.'')), db)
          else
            (case uploadOnCloudinary db uploading avatarLocalPath ''/users/avatars'' of
               (Inl x, db1) \<Rightarrow> (Inl x, db1)
             | (Inr None, db1) \<Rightarrow> (Inl TypeError, db1)
             | (Inr (Some uploaded), db1) \<Rightarrow>
                 if response_url uploaded = []
                 then (Inr (respond 500 (ApiError 500 ''Error while uploading avatar.'')), db1)
                 else
                   (case findByIdAndUpdate_user (user_id request_user)
                           (\<lambda>u. u\<lparr> avatar := \<lparr> url = response_url uploaded, publicId = public_id uploaded \<rparr> \<rparr>)
                           (if publicId (avatar request_user) \<noteq> []
                            then removeFromCloudinary (publicId (avatar request_user)) ''image'' destroying db1
                            else db1) of
                      (updated, db2) \<Rightarrow>
                        (Inr (respond 200 (Envelope (new_ApiResponse 200 updated (Some ''Avatar updated.'')))),
                         db2))))"

definition updateUserCoverImage ::
  "database \<Rightarrow> user \<Rightarrow> string option \<Rightarrow> upload_outcome \<Rightarrow> destroy_outcome \<Rightarrow> (exn + reply) \<times> database" where
  "updateUserCoverImage db request_user file_path uploading destroying =
     (case file_path of
        None \<Rightarrow> (Inr (respond 400 (ApiError 400 ''Cover image is required.'')), db)
      | Some coverImageLocalPath \<Rightarrow>
          if coverImageLocalPath = [] then (Inr (respond 400 (ApiError 400 ''Cover image is required.'')), db)
          else
            (case uploadOnCloudinary db uploading coverImageLocalPath ''/users/coverImages'' of
               (Inl x, db1) \<Rightarrow> (Inl x, db1)
             | (Inr None, db1) \<Rightarrow> (Inl TypeError, db1)
             | (Inr (Some uploaded), db1) \<Rightarrow>
                 if response_url uploaded = []
                 then (Inr (respond 500 (ApiError 500 ''Error while uploading cover image.'')), db1)
                 else
                   (case findByIdAndUpdate_user (user_id request_user)
                           (\<lambda>u. u\<lparr> coverImage := \<lparr> url = response_url uploaded, publicId = public_id uploaded \<rparr> \<rparr>)
                           (if publicId (coverImage request_user) \<noteq> []
                            then removeFromCloudinary (publicId (coverImage request_user)) ''image'' destroying db1
                            else db1) of
                      (updated, db2) \<Rightarrow>
                        (Inr (respond 200 (Envelope (new_ApiResponse 200 updated (Some ''Cover image updated.'')))),
                         db2))))"

section \<open>Content resources: videos, comments and tweets\<close>


text \<open>
  \<^verbatim>\<open>updateVideoThumbnail\<close>, lines 247 to 306: the previous thumbnail is removed from the
  store at line 279, before the upload's result is looked at in line 281.
\<close>

definition updateVideoThumbnail ::
  "database \<Rightarrow> user \<Rightarrow> id_param \<Rightarrow> string option \<Rightarrow> upload_outcome \<Rightarrow> destroy_outcome
     \<Rightarrow> (exn + reply) \<times> database" where
  "updateVideoThumbnail db request_user videoId file_path uploading destroying =
     (case videoId of
        Valid vid \<Rightarrow>
          (case file_path of
             None \<Rightarrow> (Inr (respond 400 (ApiError 400 ''Thumbnail is required.'')), db)
           | Some path \<Rightarrow>
               if path = [] then (Inr (respond 400 (ApiError 400 ''Thumbnail is required.'')), db)
               else
                 (case findById video_id (videos db) vid of
                    None \<Rightarrow> (Inr (respond 404 (ApiError 404 ''No video found'')), db)
                  | Some v \<Rightarrow>
                      if video_owner v \<noteq> user_id request_user
                      then (Inr (respond 401 (ApiError 401 ''You cannot update this video.'')), db)
                      else
                        (case uploadOnCloudinary db uploading path ''/videos/thumbnails'' of
                           (Inl x, db1) \<Rightarrow> (Inl x, db1)
                         | (Inr uploaded, db1) \<Rightarrow>
                             (case (uploaded,
                                    removeFromCloudinary (publicId (thumbnail v)) ''image'' destroying db1) of
                                (None, db2) \<Rightarrow>
                                  (Inr (respond 500 (ApiError 500 ''Error uploading thumbnail.'')), db2)
                              | (Some t, db2) \<Rightarrow>
                                  if response_url t = []
                                  then (Inr (respond 500 (ApiError 500 ''Error uploading thumbnail.'')), db2)
                                  else
                                    (Inr (respond 200 (Envelope (new_ApiResponse 200
                                        (Video_doc (v\<lparr> thumbnail :=
                                            \<lparr> url = response_url t, publicId = public_id t \<rparr> \<rparr>))
                                        (Some ''Video updated successfully.'')))),
                                     db2\<lparr> videos := save video_id
                                            (v\<lparr> thumbnail := \<lparr> url = response_url t, publicId = public_id t \<rparr> \<rparr>)
                                            (videos db2) \<rparr>)))))
      | Malformed \<Rightarrow> (Inr (respond 400 (ApiError 400 ''Not a valid video id.'')), db)
      | Absent \<Rightarrow> (Inr (respond 400 (ApiError 400 ''Not a valid video id.'')), db))"

definition deleteVideo ::
  "database \<Rightarrow> user \<Rightarrow> id_param \<Rightarrow> destroy_outcome \<Rightarrow> destroy_outcome \<Rightarrow> reply \<times> database" where
  "deleteVideo db request_user videoId destroying_file destroying_thumbnail =
     (case videoId of
        Valid vid \<Rightarrow>
          (case findById video_id (videos db) vid of
             None \<Rightarrow> (respond 404 (ApiError 404 ''No video found''), db)
           | Some v \<Rightarrow>
               if video_owner v \<noteq> user_id request_user
               then (respond 401 (ApiError 401 ''You cannot delete this video.''), db)
               else
                 (case deleteOne video_id vid (videos db) of
                    (remaining, deletedCount) \<Rightarrow>
                      (if deletedCount = 1
                       then respond 200 (Envelope (new_ApiResponse 200 Empty_object
                                                     (Some ''Video deleted successfully.'')))
                       else respond 500 (ApiError 500 ''Error deleting video.''),
                       (removeFromCloudinary (publicId (thumbnail v)) ''image'' destroying_thumbnail
                          (removeFromCloudinary (publicId (videoFile v)) ''video'' destroying_file db))
                        \<lparr> videos := remaining \<rparr>)))
      | Malformed \<Rightarrow> (respond 400 (ApiError 400 ''Not a valid video id.''), db)
      | Absent \<Rightarrow> (respond 400 (ApiError 400 ''Not a valid video id.''), db))"






section \<open>Content resources: playlists\<close>

text \<open>
  \<^verbatim>\<open>playlist.controller.ts\<close>. A created playlist starts with no videos (the schema's
  default for the array).
\<close>

definition createPlaylist :: "database \<Rightarrow> user \<Rightarrow> string \<Rightarrow> string \<Rightarrow> reply \<times> database" where
  "createPlaylist db request_user name description' =
     (if name = [] \<or> description' = []
      then (respond 400 (ApiError 400 ''All fields required.''), db)
      else
        (respond 201 (Envelope (new_ApiResponse 201
             (Playlist_doc \<lparr> playlist_id = next_oid db, playlist_name = name,
                              playlist_description = description', playlist_videos = [],
                              playlist_owner = user_id request_user \<rparr>)
             (Some ''Playlist created.''))),
         db\<lparr> playlists := playlists db @
                [\<lparr> playlist_id = next_oid db, playlist_name = name,
                   playlist_description = description', playlist_videos = [],
                   playlist_owner = user_id request_user \<rparr>],
             next_oid := Suc (next_oid db) \<rparr>))"

definition addVideoToPlaylist :: "database \<Rightarrow> user \<Rightarrow> id_param \<Rightarrow> id_param \<Rightarrow> reply \<times> database" where
  "addVideoToPlaylist db request_user playlistId videoId =
     (case playlistId of
        Valid pid \<Rightarrow>
          (case videoId of
             Valid vid \<Rightarrow>
               (case findById playlist_id (playlists db) pid of
                  None \<Rightarrow> (respond 404 (ApiError 404 ''No playlist found.''), db)
                | Some playList \<Rightarrow>
                    if playlist_owner playList \<noteq> user_id request_user
                    then (respond 401 (ApiError 401 ''You cannot add video this playlist.''), db)
                    else
                      (case findById video_id (videos db) vid of
                         None \<Rightarrow> (respond 404 (ApiError 404 ''No video found.''), db)
                       | Some v \<Rightarrow>
                           if list_ex (\<lambda>i. i = vid) (playlist_videos playList)
                           then (respond 400 (ApiError 400 ''Video already inside playlist.''), db)
                           else
                             (respond 200 (Envelope (new_ApiResponse 200 Empty_object
                                                       (Some ''Video added successfully.''))),
                              db\<lparr> playlists := save playlist_id
                                     (playList\<lparr> playlist_videos := playlist_videos playList @ [video_id v] \<rparr>)
                                     (playlists db) \<rparr>)))
           | Malformed \<Rightarrow> (respond 400 (ApiError 400 ''Not a valid video id.''), db)
           | Absent \<Rightarrow> (respond 400 (ApiError 400 ''Not a valid video id.''), db))
      | Malformed \<Rightarrow> (respond 400 (ApiError 400 ''Not a valid playlist id.''), db)
      | Absent \<Rightarrow> (respond 400 (ApiError 400 ''Not a valid playlist id.''), db))"

definition removeVideoFromPlaylist :: "database \<Rightarrow> user \<Rightarrow> id_param \<Rightarrow> id_param \<Rightarrow> reply \<times> database" where
  "removeVideoFromPlaylist db request_user playlistId videoId =
     (case playlistId of
        Valid pid \<Rightarrow>
          (case videoId of
             Valid vid \<Rightarrow>
               (case findById playlist_id (playlists db) pid of
                  None \<Rightarrow> (respond 404 (ApiError 404 ''No playlist found.''), db)
                | Some playList \<Rightarrow>
                    if playlist_owner playList \<noteq> user_id request_user
                    then (respond 401 (ApiError 401 ''You cannot remove video from this playlist.''), db)
                    else
                      (case findById video_id (videos db) vid of
                         None \<Rightarrow> (respond 404 (ApiError 404 ''No video found.''), db)
                       | Some v \<Rightarrow>
                           if \<not> list_ex (\<lambda>i. i = vid) (playlist_videos playList)
                           then (respond 400 (ApiError 400 ''Video is not inside playlist.''), db)
                           else
                             (respond 200 (Envelope (new_ApiResponse 200 Empty_object
                                                       (Some ''Video removed successfully.''))),
                              db\<lparr> playlists := save playlist_id
                                     (playList\<lparr> playlist_videos :=
                                          filter (\<lambda>i. i \<noteq> vid) (playlist_videos playList) \<rparr>)
                                     (playlists db) \<rparr>)))
           | Malformed \<Rightarrow> (respond 400 (ApiError 400 ''Not a valid video id.''), db)
           | Absent \<Rightarrow> (respond 400 (ApiError 400 ''Not a valid video id.''), db))
      | Malformed \<Rightarrow> (respond 400 (ApiError 400 ''Not a valid playlist id.''), db)
      | Absent \<Rightarrow> (respond 400 (ApiError 400 ''Not a valid playlist id.''), db))"

definition deletePlaylist :: "database \<Rightarrow> user \<Rightarrow> id_param \<Rightarrow> reply \<times> database" where
  "deletePlaylist db request_user playlistId =
     (case playlistId of
        Valid pid \<Rightarrow>
          (case findById playlist_id (playlists db) pid of
             None \<Rightarrow> (respond 404 (ApiError 404 ''No playlist found.''), db)
           | Some playList \<Rightarrow>
               if playlist_owner playList \<noteq> user_id request_user
               then (respond 401 (ApiError 401 ''You cannot delete this playlist.''), db)
               else
                 (case deleteOne playlist_id pid (playlists db) of
                    (remaining, deletedCount) \<Rightarrow>
                      (if deletedCount = 1
                       then respond 200 (Envelope (new_ApiResponse 200 Empty_object
                                                     (Some ''Playlist deleted successfully.'')))
                       else respond 500 (ApiError 500 ''Error deleting Playlist.''),
                       db\<lparr> playlists := remaining \<rparr>)))
      | Malformed \<Rightarrow> (respond 400 (ApiError 400 ''Not a valid playlist id.''), db)
      | Absent \<Rightarrow> (respond 400 (ApiError 400 ''Not a valid playlist id.''), db))"

definition updatePlaylist :: "database \<Rightarrow> user \<Rightarrow> id_param \<Rightarrow> string \<Rightarrow> string \<Rightarrow> reply \<times> database" where
  "updatePlaylist db request_user playlistId name description' =
     (case playlistId of
        Valid pid \<Rightarrow>
          if name = [] \<or> description' = []
          then (respond 400 (ApiError 400 ''All fields required.''), db)
          else
            (case findById playlist_id (playlists db) pid of
               None \<Rightarrow> (respond 404 (ApiError 404 ''No playlist found.''), db)
             | Some playList \<Rightarrow>
                 if playlist_owner playList \<noteq> user_id request_user
                 then (respond 401 (ApiError 401 ''You cannot update this playlist.''), db)
                 else
                   (respond 200 (Envelope (new_ApiResponse 200 Empty_object
                                             (Some ''Playlist updated successfully.''))),
                    db\<lparr> playlists := save playlist_id
                           (playList\<lparr> playlist_name := name, playlist_description := description' \<rparr>)
                           (playlists db) \<rparr>))
      | Malformed \<Rightarrow> (respond 400 (ApiError 400 ''Not a valid playlist id.''), db)
      | Absent \<Rightarrow> (respond 400 (ApiError 400 ''Not a valid playlist id.''), db))"

text \<open>The invariant of the playlists: no list of videos holds an id twice.\<close>

definition no_duplicate_videos :: "database \<Rightarrow> bool" where
  "no_duplicate_videos db = list_all (\<lambda>p. distinct (playlist_videos p)) (playlists db)"

section \<open>Read aggregation: the list endpoints\<close>

text \<open>
  The join every list endpoint ends with: \<^verbatim>\<open>$lookup\<close> of the owner with the projection
  to full name, username and avatar, then \<^verbatim>\<open>$unwind\<close>, which drops a document whose
  owner does not exist.
\<close>

definition owner_view_of :: "database \<Rightarrow> oid \<Rightarrow> owner_view option" where
  "owner_view_of db i =
     map_option (\<lambda>u. \<lparr> owner_fullName = fullName u, owner_username = username u, owner_avatar = avatar u \<rparr>)
       (findById user_id (users db) i)"

definition join_owner :: "database \<Rightarrow> ('d \<Rightarrow> oid) \<Rightarrow> 'd list \<Rightarrow> ('d \<times> owner_view) list" where
  "join_owner db owner_of docs =
     List.map_filter (\<lambda>d. map_option (\<lambda>v. (d, v)) (owner_view_of db (owner_of d))) docs"

text \<open>
  \<^verbatim>\<open>getAllVideos\<close>, \<^verbatim>\<open>video.controller.ts\<close> lines 75 to 151. A numeric query parameter
  is \<open>None\<close> when absent (the default applies) and otherwise what \<^verbatim>\<open>parseInt\<close> makes of
  it. Two things belong to the database and the language, and are arguments: \<open>rank\<close>,
  the database's order of the documents on a named field, and \<open>regex\<close>, which compiles a
  pattern to its test or fails. The database rejects a sort direction other than 1 and
  -1, a negative or non-numeric skip, and a limit that is not positive; a descending
  sort is the ascending one reversed.
\<close>

datatype js_number = NaN | Num int

definition getAllVideos_pipeline ::
  "database \<Rightarrow> (string \<Rightarrow> video \<Rightarrow> int) \<Rightarrow> (string \<Rightarrow> (string \<Rightarrow> bool) option)
     \<Rightarrow> js_number option \<Rightarrow> js_number option \<Rightarrow> string \<Rightarrow> string option \<Rightarrow> js_number option \<Rightarrow> id_param
     \<Rightarrow> exn + (video \<times> owner_view) list" where
  "getAllVideos_pipeline db rank regex page limit query sortBy sortType userId =
     (case (if query = [] then Some (\<lambda>w. True) else regex query) of
        None \<Rightarrow> Inl SyntaxError
      | Some matches \<Rightarrow>
          (case (case page of None \<Rightarrow> Num 1 | Some n \<Rightarrow> n,
                 case limit of None \<Rightarrow> Num 10 | Some n \<Rightarrow> n,
                 case sortType of None \<Rightarrow> Num (- 1) | Some n \<Rightarrow> n) of
             (Num p, Num l, Num direction) \<Rightarrow>
               if (direction = 1 \<or> direction = - 1) \<and> 0 \<le> (p - 1) * l \<and> 0 < l
               then
                 Inr (join_owner db video_owner
                   (take (nat l) (drop (nat ((p - 1) * l))
                     ((if direction = 1 then (\<lambda>vs. vs) else rev)
                        (sort_key (rank (case sortBy of None \<Rightarrow> ''createdAt'' | Some f \<Rightarrow> f))
                          (filter (\<lambda>v. query = [] \<or> matches (title v) \<or> matches (description v))
                            (filter (\<lambda>v. case userId of Valid u \<Rightarrow> video_owner v = u
                                          | Malformed \<Rightarrow> True | Absent \<Rightarrow> True)
                               (videos db))))))))
               else Inl MongoServerError
           | (other_page, other_limit, other_direction) \<Rightarrow> Inl MongoServerError))"

definition getAllVideos ::
  "database \<Rightarrow> (string \<Rightarrow> video \<Rightarrow> int) \<Rightarrow> (string \<Rightarrow> (string \<Rightarrow> bool) option)
     \<Rightarrow> js_number option \<Rightarrow> js_number option \<Rightarrow> string \<Rightarrow> string option \<Rightarrow> js_number option \<Rightarrow> id_param
     \<Rightarrow> exn + reply" where
  "getAllVideos db rank regex page limit query sortBy sortType userId =
     (case userId of
        Malformed \<Rightarrow> Inr (respond 400 (ApiError 400 ''Not a valid object id.''))
      | other \<Rightarrow>
          (case getAllVideos_pipeline db rank regex page limit query sortBy sortType userId of
             Inl x \<Rightarrow> Inl x
           | Inr found \<Rightarrow>
               if length found < 1
               then Inr (respond 404 (ApiError 404 ''No videos found''))
               else Inr (respond 200 (Envelope (new_ApiResponse 200 (Video_list found)
                                                  (Some ''Videos fetched successfully.''))))))"

text \<open>\<^verbatim>\<open>getUserTweets\<close>, lines 717 to 769 of \<^verbatim>\<open>user.controller.ts\<close>.\<close>

definition getUserTweets_pipeline :: "database \<Rightarrow> oid \<Rightarrow> (tweet \<times> owner_view) list" where
  "getUserTweets_pipeline db userId =
     join_owner db tweet_owner (filter (\<lambda>t. tweet_owner t = userId) (tweets db))"

definition getUserTweets :: "database \<Rightarrow> id_param \<Rightarrow> reply" where
  "getUserTweets db userId =
     (case userId of
        Valid uid \<Rightarrow>
          (case findById user_id (users db) uid of
             None \<Rightarrow> respond 404 (ApiError 404 ''No user found.'')
           | Some u \<Rightarrow>
               if length (getUserTweets_pipeline db uid) < 1
               then respond 404 (ApiError 404 ''No tweets found.'')
               else respond 200 (Envelope (new_ApiResponse 200 (Tweet_list (getUserTweets_pipeline db uid))
                                             (Some ''Tweets fetched successfully.''))))
      | Malformed \<Rightarrow> respond 400 (ApiError 400 ''Not a valid user id.'')
      | Absent \<Rightarrow> respond 400 (ApiError 400 ''Not a valid user id.''))"

text \<open>
  \<^verbatim>\<open>getLikedVideos\<close>, lines 297 to 360 of \<^verbatim>\<open>dashboard.controller.ts\<close>: the caller's likes
  that have a video, each replaced by its video joined with the video's owner.
\<close>

definition getLikedVideos_pipeline :: "database \<Rightarrow> user \<Rightarrow> (video \<times> owner_view) list" where
  "getLikedVideos_pipeline db request_user =
     concat (map (\<lambda>l. case like_video l of
                         None \<Rightarrow> []
                       | Some vid \<Rightarrow> join_owner db video_owner (filter (\<lambda>v. video_id v = vid) (videos db)))
              (filter (\<lambda>l. likedBy l = user_id request_user \<and> like_video l \<noteq> None) (likes db)))"

definition getLikedVideos :: "database \<Rightarrow> user \<Rightarrow> reply" where
  "getLikedVideos db request_user =
     (if length (getLikedVideos_pipeline db request_user) < 1
      then respond 404 (ApiError 404 ''No video found'')
      else respond 200 (Envelope (new_ApiResponse 200 (Video_list (getLikedVideos_pipeline db request_user))
                                    (Some ''Liked videos fetched successfully.''))))"

section \<open>Concrete states\<close>

text \<open>
  Two accounts and a database that holds them, for the theorems that run a handler on
  a concrete request. Ana's stored refresh token was issued at time 20 and her stored
  email token at time 20; both are still valid at time 30.
\<close>

definition env_example :: env where
  "env_example = \<lparr> ACCESS_TOKEN_EXPIRY = 10, REFRESH_TOKEN_EXPIRY = 100, EMAIL_TOKEN_EXPIRY = 50 \<rparr>"

definition ana :: user where
  "ana = \<lparr> user_id = 1, username = ''ana'', email = ''ana@x.com'', fullName = ''Ana'',
           avatar = \<lparr> url = ''https://cdn/ana.png'', publicId = ''avatar-ana'' \<rparr>,
           coverImage = \<lparr> url = [], publicId = [] \<rparr>,
           refreshToken = Some (Jwt REFRESH_TOKEN_SECRET (Some 1) 20 120),
           emailToken = Some (Jwt EMAIL_TOKEN_SECRET (Some 1) 20 70),
           isVerifiedEmail = False \<rparr>"

definition bob :: user where
  "bob = \<lparr> user_id = 2, username = ''bob'', email = ''bob@x.com'', fullName = ''Bob'',
           avatar = \<lparr> url = ''https://cdn/bob.png'', publicId = ''avatar-bob'' \<rparr>,
           coverImage = \<lparr> url = [], publicId = [] \<rparr>,
           refreshToken = None,
           emailToken = Some (Opaque []),
           isVerifiedEmail = True \<rparr>"

definition db_accounts :: database where
  "db_accounts = \<lparr> users = [ana, bob], videos = [], comments = [], tweets = [], playlists = [],
           subscriptions = [], likes = [], next_oid = 3,
           cloud = {''avatar-ana'', ''avatar-bob''}, disk = {} \<rparr>"

text \<open>
  A database with content: Bob owns video 10, tweet 30 and playlist 35 (which holds
  video 10); Ana wrote comment 20 on the video; Bob follows Ana and likes his own video.
\<close>

definition video_10 :: video where
  "video_10 = \<lparr> video_id = 10,
       videoFile = \<lparr> url = ''https://cdn/v10.mp4'', publicId = ''file-10'' \<rparr>,
       thumbnail = \<lparr> url = ''https://cdn/t10.png'', publicId = ''thumb-10'' \<rparr>,
       title = ''Intro'', description = ''First video'', isPublished = True, video_owner = 2 \<rparr>"

definition db_content :: database where
  "db_content = \<lparr> users = [ana, bob],
       videos = [video_10],
       comments = [\<lparr> comment_id = 20, comment_content = ''Nice'', comment_video = 10, comment_owner = 1 \<rparr>],
       tweets = [\<lparr> tweet_id = 30, tweet_content = ''Hello'', tweet_owner = 2 \<rparr>],
       playlists = [\<lparr> playlist_id = 35, playlist_name = ''Mine'', playlist_description = ''All of them'',
                      playlist_videos = [10], playlist_owner = 2 \<rparr>],
       subscriptions = [\<lparr> subscription_id = 40, subscriber = 2, channel = 1 \<rparr>],
       likes = [\<lparr> like_id = 41, like_video = Some 10, like_comment = None, like_tweet = None, likedBy = 2 \<rparr>],
       next_oid = 50,
       cloud = {''avatar-ana'', ''avatar-bob'', ''file-10'', ''thumb-10''},
       disk = {} \<rparr>"

text \<open>The database with content after Bob has deleted his video 10.\<close>

definition db_video_deleted :: database where
  "db_video_deleted = snd (deleteVideo db_content bob (Valid 10) Destroyed Destroyed)"

text \<open>The database with one uploaded temporary file on the local disk.\<close>

definition db_upload :: database where
  "db_upload = db_content\<lparr> disk := {''/tmp/upload-1''} \<rparr>"

text \<open>
  An order of the videos and a pattern compiler for the concrete list requests: videos
  are ranked by the length of the title or else by id, and a pattern is an exact match
  (the pattern of one open parenthesis does not compile).
\<close>

definition rank_example :: "string \<Rightarrow> video \<Rightarrow> int" where
  "rank_example field v = (if field = ''title'' then int (length (title v)) else int (video_id v))"

definition regex_example :: "string \<Rightarrow> (string \<Rightarrow> bool) option" where
  "regex_example pattern = (if pattern = ''('' then None else Some (\<lambda>w. pattern = w))"

section \<open>Refusals\<close>



section \<open>Properties\<close>

subsection \<open>Lookups\<close>

lemma findById_key: "findById key docs i = Some d \<Longrightarrow> key d = i"
  by (auto simp: findById_def find_Some_iff)

lemma findById_mem: "findById key docs i = Some d \<Longrightarrow> d \<in> set docs"
  by (auto simp: findById_def find_Some_iff)

subsection \<open>C9: the success flag of the envelope\<close>

text \<open>
  C9. For every response envelope constructed with status code \<open>s\<close>, any data and any
  message (given or defaulted), the envelope's success field equals \<open>s < 400\<close>: it is
  true for every code below 400 and false for every code at or above 400. The status
  code and the data are stored as given.
\<close>

theorem ApiResponse_success_iff_below_400:
  "success (new_ApiResponse s d m) = (s < 400)
   \<and> statusCode (new_ApiResponse s d m) = s
   \<and> data (new_ApiResponse s d m) = d"
  by (simp add: new_ApiResponse_def)

subsection \<open>C1: a stale refresh token\<close>

text \<open>
  What \<^verbatim>\<open>refreshAccessToken\<close> does on every stale token, that is a token that verifies
  and names an existing account but differs from the token stored on it: the client
  receives the 401, the account's stored refresh token is replaced by a newly minted
  one, and the handler ends in the exception of the second send.
\<close>

lemma refreshAccessToken_stale_rotates:
  assumes "truthy t"
    and "jwt_verify t REFRESH_TOKEN_SECRET now = Inr (Some i)"
    and "findById user_id (users db) i = Some u"
    and "Some t \<noteq> refreshToken u"
  shows "refreshAccessToken e now (Some t) b db =
           (Some ERR_HTTP_HEADERS_SENT,
            fresh_response\<lparr> res_status := 401,
               sent := Some (respond 401 (ApiError 401 ''Refresh token is expired.'')) \<rparr>,
            db\<lparr> users := save user_id (u\<lparr> refreshToken := Some (generateRefreshToken e now u) \<rparr>) (users db) \<rparr>)"
proof -
  have k: "user_id u = i" using assms(3) by (rule findById_key)
  show ?thesis
    using assms
    by (simp add: refreshAccessToken_def refreshAccessToken_try_def js_or_def k
        generateAccessAndRefreshToken_def send_def json_def status_def cookie_def fresh_response_def)
qed

text \<open>
  C1. The claim: a refresh request whose token verifies but is not the token stored
  on the account fails with Unauthorized and leaves the stored refresh token unchanged.
  The code at the request below, made at time 30 with a token issued to Ana at time 10
  (valid until 110, so it verifies) while her account stores the token issued at time
  20: the client receives 401 "Refresh token is expired.", and yet Ana's stored refresh
  token is no longer the one issued at time 20 but a new one issued at time 30. The
  stored token was rotated on the error path.
\<close>

theorem refreshAccessToken_stale_token_is_rotated:
  "jwt_verify (Jwt REFRESH_TOKEN_SECRET (Some 1) 10 110) REFRESH_TOKEN_SECRET 30 = Inr (Some 1)
   \<and> map refreshToken (users db_accounts) = [Some (Jwt REFRESH_TOKEN_SECRET (Some 1) 20 120), None]
   \<and> sent (fst (snd (refreshAccessToken env_example 30
             (Some (Jwt REFRESH_TOKEN_SECRET (Some 1) 10 110)) None db_accounts)))
       = Some (respond 401 (ApiError 401 ''Refresh token is expired.''))
   \<and> map refreshToken (users (snd (snd (refreshAccessToken env_example 30
             (Some (Jwt REFRESH_TOKEN_SECRET (Some 1) 10 110)) None db_accounts))))
       = [Some (Jwt REFRESH_TOKEN_SECRET (Some 1) 30 130), None]"
  by (simp add: refreshAccessToken_def refreshAccessToken_try_def env_example_def ana_def bob_def
      db_accounts_def js_or_def truthy_def jwt_verify_def findById_def send_def json_def status_def
      cookie_def fresh_response_def generateAccessAndRefreshToken_def generateAccessToken_def
      generateRefreshToken_def jwt_sign_def save_def message_or_def respond_def)

subsection \<open>C2: a stale email token\<close>

text \<open>
  What \<^verbatim>\<open>confirmEmail\<close> does on every token that verifies, names an existing account
  that is not yet verified, and differs from the token stored on it: the client receives
  the 401, and the account is saved as verified with its stored token cleared.
\<close>

lemma confirmEmail_stale_verifies:
  assumes "truthy t"
    and "jwt_verify t EMAIL_TOKEN_SECRET now = Inr (Some i)"
    and "findById user_id (users db) i = Some u"
    and "\<not> isVerifiedEmail u"
    and "Some t \<noteq> emailToken u"
  shows "confirmEmail now (Some t) db =
           (Some ERR_HTTP_HEADERS_SENT,
            fresh_response\<lparr> res_status := 201,
               sent := Some (respond 401 (ApiError 401 ''Email token is expired.'')) \<rparr>,
            db\<lparr> users := save user_id (u\<lparr> isVerifiedEmail := True, emailToken := Some (Opaque []) \<rparr>) (users db) \<rparr>)"
  using assms
  by (simp add: confirmEmail_def verifyEmailToken_def send_def json_def status_def fresh_response_def)


subsection \<open>C3: the subscribed flag of the channel profile\<close>

text \<open>
  A subscription document has no field \<^verbatim>\<open>subscribe\<close>, so the path the aggregation
  tests the caller's id against is empty for every channel, and no profile the handler
  returns has the flag set.
\<close>

lemma no_subscribe_field: "map_of (subscription_document s) ''subscribe'' = None"
  by (simp add: subscription_document_def)

lemma field_path_subscribe: "field_path (lookup_subscriptions db i f) ''subscribe'' = []"
  by (simp add: field_path_def lookup_subscriptions_def List.map_filter_def filter_empty_conv
      no_subscribe_field)

lemma profile_never_subscribed:
  "getUserChannelProfile db caller name = respond 200 (Envelope r) \<Longrightarrow> data r = Profile_doc p
     \<Longrightarrow> \<not> isSubscribed p"
  by (auto simp: getUserChannelProfile_def field_path_subscribe respond_def new_ApiResponse_def Let_def
      split: if_splits list.splits)

text \<open>
  C3. The claim: the profile's \<^verbatim>\<open>isSubscribed\<close> is true exactly when the edge
  (subscriber = caller, channel = looked-up channel) exists, as \<^verbatim>\<open>toggleSubscription\<close>
  creates it. The code at the requests below: Ana subscribes to Bob (reply 200, the
  collection then holds exactly the edge from Ana to Bob) and looks up Bob's profile.
  The profile counts one subscriber, and its \<^verbatim>\<open>isSubscribed\<close> is false.
\<close>

theorem getUserChannelProfile_isSubscribed_false_for_subscriber:
  "http_status (fst (toggleSubscription db_accounts ana (Valid 2))) = 200
   \<and> map subscription_edge (subscriptions (snd (toggleSubscription db_accounts ana (Valid 2)))) = [(1, 2)]
   \<and> getUserChannelProfile (snd (toggleSubscription db_accounts ana (Valid 2))) ana ''bob'' =
        respond 200 (Envelope (new_ApiResponse 200
          (Profile_doc \<lparr> profile_fullName = ''Bob'', profile_username = ''bob'',
             profile_email = ''bob@x.com'', profile_avatar = avatar bob,
             profile_coverImage = coverImage bob,
             subscriberCount = 1, channelsSubscribedToCount = 0, isSubscribed = False \<rparr>)
          (Some ''User channel fetched successfully'')))"
  by (simp add: toggleSubscription_def db_accounts_def ana_def bob_def findById_def respond_def
      subscription_edge_def getUserChannelProfile_def trim_def is_space_def toLowerCase_def
      lookup_subscriptions_def subscription_document_def field_path_def new_ApiResponse_def)

subsection \<open>C4: toggling twice\<close>


lemma find_append_new: "find P xs = None \<Longrightarrow> P e \<Longrightarrow> find P (xs @ [e]) = Some e"
  by (induction xs) (auto split: if_splits)

lemma remove_first_append_new:
  "list_all (\<lambda>d. \<not> P d) xs \<Longrightarrow> P e \<Longrightarrow> remove_first P (xs @ [e]) = xs"
  by (induction xs) auto

lemma deleteOne_append_new:
  assumes "list_all (\<lambda>d. key d \<noteq> key e) xs"
  shows "deleteOne key (key e) (xs @ [e]) = (xs, 1)"
proof -
  have "find (\<lambda>d. key d = key e) xs = None"
    using assms by (induction xs) auto
  then have "find (\<lambda>d. key d = key e) (xs @ [e]) = Some e"
    by (rule find_append_new) simp
  moreover have "remove_first (\<lambda>d. key d = key e) (xs @ [e]) = xs"
    using assms by (intro remove_first_append_new) simp_all
  ultimately show ?thesis by (simp add: deleteOne_def)
qed

lemma find_mem: "find P xs = Some e \<Longrightarrow> e \<in> set xs \<and> P e"
  by (induction xs) (auto split: if_splits)

lemma remove_first_key:
  "distinct (map key xs) \<Longrightarrow> e \<in> set xs \<Longrightarrow> remove_first (\<lambda>d. key d = key e) xs = remove1 e xs"
  by (induction xs) (auto simp: image_iff)

lemma deleteOne_found:
  assumes "distinct (map key xs)" and "e \<in> set xs"
  shows "deleteOne key (key e) xs = (remove1 e xs, 1)"
proof -
  have "find (\<lambda>d. key d = key e) xs \<noteq> None"
    using assms(2) by (auto simp: find_None_iff)
  then show ?thesis
    using assms by (auto simp: deleteOne_def remove_first_key)
qed

lemma find_after_remove1:
  assumes "distinct (map edge xs)" and "e \<in> set xs"
    and "list_all (\<lambda>d. P d = (edge d = edge e)) xs"
  shows "find P (remove1 e xs) = None"
proof -
  have "distinct xs" using assms(1) by (rule distinct_map[THEN iffD1, THEN conjunct1])
  have "\<And>d. d \<in> set (remove1 e xs) \<Longrightarrow> \<not> P d"
  proof -
    fix d assume d: "d \<in> set (remove1 e xs)"
    then have "d \<in> set xs" "d \<noteq> e" using \<open>distinct xs\<close> by auto
    moreover have "inj_on edge (set xs)" using assms(1) by (simp add: distinct_map)
    ultimately have "edge d \<noteq> edge e" using assms(2) by (auto dest: inj_onD)
    moreover have "P d = (edge d = edge e)" using assms(3) \<open>d \<in> set xs\<close> by (simp add: list_all_iff)
    ultimately show "\<not> P d" by simp
  qed
  then show ?thesis by (auto simp: find_None_iff)
qed

lemma edges_after_readd:
  assumes "distinct (map edge xs)" and "e \<in> set xs" and "edge e' = edge e"
  shows "set (map edge (remove1 e xs @ [e'])) = set (map edge xs)"
proof -
  have "distinct xs" using assms(1) by (rule distinct_map[THEN iffD1, THEN conjunct1])
  then have "set (remove1 e xs) = set xs - {e}" by simp
  then show ?thesis using assms(2,3) by auto
qed


lemma distinct_map_remove1: "distinct (map f xs) \<Longrightarrow> distinct (map f (remove1 e xs))"
  using set_remove1_subset[of e xs] by (auto simp: distinct_map intro: inj_on_subset)

lemma list_all_remove1: "list_all P xs \<Longrightarrow> list_all P (remove1 e xs)"
  by (induction xs) auto

lemma toggleSubscription_absent:
  assumes "findById user_id (users db) c = Some ch"
    and "find (\<lambda>s. subscriber s = user_id u \<and> channel s = c) (subscriptions db) = None"
  shows "toggleSubscription db u (Valid c) =
           (respond 200 (Envelope (new_ApiResponse 200 Empty_object (Some ''Channel subscribed.''))),
            db\<lparr> subscriptions := subscriptions db @
                   [\<lparr> subscription_id = next_oid db, subscriber = user_id u, channel = c \<rparr>],
                next_oid := Suc (next_oid db) \<rparr>)"
  using assms findById_key[OF assms(1)] by (simp add: toggleSubscription_def)

lemma toggleSubscription_present:
  assumes "findById user_id (users db) c = Some ch"
    and "find (\<lambda>s. subscriber s = user_id u \<and> channel s = c) (subscriptions db) = Some e"
    and "distinct (map subscription_id (subscriptions db))"
  shows "toggleSubscription db u (Valid c) =
           (respond 200 (Envelope (new_ApiResponse 200 Empty_object (Some ''Channel unsubscribed.''))),
            db\<lparr> subscriptions := remove1 e (subscriptions db) \<rparr>)"
proof -
  have "e \<in> set (subscriptions db)" using assms(2) by (auto dest: find_mem)
  then have "deleteOne subscription_id (subscription_id e) (subscriptions db) = (remove1 e (subscriptions db), 1)"
    using assms(3) by (intro deleteOne_found)
  then show ?thesis
    using assms(1,2) findById_key[OF assms(1)] by (simp add: toggleSubscription_def)
qed

lemma toggleSubscription_wf:
  assumes "wf_subscriptions db" and "findById user_id (users db) c = Some ch"
  shows "wf_subscriptions (snd (toggleSubscription db u (Valid c)))"
proof (cases "find (\<lambda>s. subscriber s = user_id u \<and> channel s = c) (subscriptions db)")
  case None
  then have "(user_id u, c) \<notin> set (map subscription_edge (subscriptions db))"
    by (auto simp: find_None_iff subscription_edge_def)
  moreover have "next_oid db \<notin> set (map subscription_id (subscriptions db))"
    using assms(1) by (auto simp: wf_subscriptions_def list_all_iff)
  moreover have "list_all (\<lambda>s. subscription_id s < Suc (next_oid db)) (subscriptions db)"
    using assms(1) by (auto simp: wf_subscriptions_def list_all_iff)
  ultimately show ?thesis
    using assms(1) by (simp add: toggleSubscription_absent[OF assms(2) None] wf_subscriptions_def subscription_edge_def)
next
  case (Some e)
  have d: "distinct (map subscription_id (subscriptions db))"
    using assms(1) by (simp add: wf_subscriptions_def)
  show ?thesis
    using assms(1)
    by (simp add: toggleSubscription_present[OF assms(2) Some d] wf_subscriptions_def
        distinct_map_remove1 list_all_remove1)
qed

lemma toggleSubscription_twice:
  assumes "wf_subscriptions db" and "findById user_id (users db) c = Some ch"
  shows "subscription_edges (snd (toggleSubscription (snd (toggleSubscription db u (Valid c))) u (Valid c)))
           = subscription_edges db"
proof (cases "find (\<lambda>s. subscriber s = user_id u \<and> channel s = c) (subscriptions db)")
  case None
  let ?new = "\<lparr> subscription_id = next_oid db, subscriber = user_id u, channel = c \<rparr>"
  let ?db1 = "db\<lparr> subscriptions := subscriptions db @ [?new], next_oid := Suc (next_oid db) \<rparr>"
  have 1: "toggleSubscription db u (Valid c) = (respond 200 (Envelope (new_ApiResponse 200 Empty_object (Some ''Channel subscribed.''))), ?db1)"
    by (rule toggleSubscription_absent[OF assms(2) None])
  have f: "find (\<lambda>s. subscriber s = user_id u \<and> channel s = c) (subscriptions ?db1) = Some ?new"
    using None by (simp add: find_append_new)
  have fresh: "list_all (\<lambda>d. subscription_id d \<noteq> subscription_id ?new) (subscriptions db)"
    using assms(1) by (auto simp: wf_subscriptions_def list_all_iff)
  have del: "deleteOne subscription_id (subscription_id ?new) (subscriptions db @ [?new]) = (subscriptions db, 1)"
    using fresh by (rule deleteOne_append_new)
  have "snd (toggleSubscription ?db1 u (Valid c)) = ?db1\<lparr> subscriptions := subscriptions db \<rparr>"
    using assms(2) f del findById_key[OF assms(2)] by (simp add: toggleSubscription_def)
  then show ?thesis by (simp add: 1 subscription_edges_def)
next
  case (Some e)
  have d: "distinct (map subscription_id (subscriptions db))"
    and de: "distinct (map subscription_edge (subscriptions db))"
    using assms(1) by (simp_all add: wf_subscriptions_def)
  have mem: "e \<in> set (subscriptions db)" and pe: "subscriber e = user_id u \<and> channel e = c"
    using Some by (auto dest: find_mem)
  let ?db1 = "db\<lparr> subscriptions := remove1 e (subscriptions db) \<rparr>"
  have 1: "snd (toggleSubscription db u (Valid c)) = ?db1"
    by (simp add: toggleSubscription_present[OF assms(2) Some d])
  have "list_all (\<lambda>d. (subscriber d = user_id u \<and> channel d = c) = (subscription_edge d = subscription_edge e))
          (subscriptions db)"
    using pe by (auto simp: list_all_iff subscription_edge_def)
  then have none: "find (\<lambda>s. subscriber s = user_id u \<and> channel s = c) (subscriptions ?db1) = None"
    using find_after_remove1[OF de mem] by simp
  have ch1: "findById user_id (users ?db1) c = Some ch" using assms(2) by simp
  have "subscription_edges (snd (toggleSubscription ?db1 u (Valid c))) =
          set (map subscription_edge (remove1 e (subscriptions db) @
             [\<lparr> subscription_id = next_oid db, subscriber = user_id u, channel = c \<rparr>]))"
    by (simp add: toggleSubscription_absent[OF ch1 none] subscription_edges_def)
  also have "\<dots> = set (map subscription_edge (subscriptions db))"
    using pe by (intro edges_after_readd[OF de mem]) (simp add: subscription_edge_def)
  finally show ?thesis by (simp add: 1 subscription_edges_def)
qed

lemma toggleSubscription_once:
  assumes "findById user_id (users db) c = Some ch"
    and "find (\<lambda>s. subscriber s = user_id u \<and> channel s = c) (subscriptions db) = None"
  shows "subscription_documents (snd (toggleSubscription db u (Valid c))) (user_id u, c) = 1"
proof -
  have "filter (\<lambda>s. subscription_edge s = (user_id u, c)) (subscriptions db) = []"
    using assms(2) by (auto simp: find_None_iff filter_empty_conv subscription_edge_def)
  then show ?thesis
    by (simp add: toggleSubscription_absent[OF assms] subscription_documents_def subscription_edge_def)
qed


lemma one_target_video: "one_target l \<Longrightarrow> (like_video l = Some v \<and> likedBy l = a) = (like_edge l = (a, Some v, None, None))"
  by (auto simp: one_target_def like_edge_def split: option.splits)

lemma one_target_comment: "one_target l \<Longrightarrow> (like_comment l = Some c \<and> likedBy l = a) = (like_edge l = (a, None, Some c, None))"
  by (auto simp: one_target_def like_edge_def split: option.splits)

lemma one_target_tweet: "one_target l \<Longrightarrow> (like_tweet l = Some t \<and> likedBy l = a) = (like_edge l = (a, None, None, Some t))"
  by (auto simp: one_target_def like_edge_def split: option.splits)

lemma toggleVideoLike_absent:
  assumes "findById video_id (videos db) i = Some target"
    and "find (\<lambda>l. like_video l = Some i \<and> likedBy l = user_id u) (likes db) = None"
  shows "toggleVideoLike db u (Valid i) =
           (respond 200 (Envelope (new_ApiResponse 200 Empty_object (Some ''Video liked successfully.''))),
            db\<lparr> likes := likes db @ [\<lparr> like_id = next_oid db, like_video = Some i, like_comment = None, like_tweet = None, likedBy = user_id u \<rparr>], next_oid := Suc (next_oid db) \<rparr>)"
  using assms by (simp add: toggleVideoLike_def)

lemma toggleVideoLike_present:
  assumes "findById video_id (videos db) i = Some target"
    and "find (\<lambda>l. like_video l = Some i \<and> likedBy l = user_id u) (likes db) = Some e"
    and "distinct (map like_id (likes db))"
  shows "toggleVideoLike db u (Valid i) =
           (respond 200 (Envelope (new_ApiResponse 200 Empty_object (Some ''Video like removed successfully.''))),
            db\<lparr> likes := remove1 e (likes db) \<rparr>)"
proof -
  have "e \<in> set (likes db)" using assms(2) by (auto dest: find_mem)
  then have "deleteOne like_id (like_id e) (likes db) = (remove1 e (likes db), 1)"
    using assms(3) by (intro deleteOne_found)
  then show ?thesis
    using assms(1,2) by (simp add: toggleVideoLike_def)
qed

lemma toggleVideoLike_wf:
  assumes "wf_likes db" and "findById video_id (videos db) i = Some target"
  shows "wf_likes (snd (toggleVideoLike db u (Valid i)))"
proof (cases "find (\<lambda>l. like_video l = Some i \<and> likedBy l = user_id u) (likes db)")
  case None
  then have "(user_id u, Some i, None, None) \<notin> set (map like_edge (likes db))"
    by (auto simp: find_None_iff like_edge_def)
  moreover have "next_oid db \<notin> set (map like_id (likes db))"
    using assms(1) by (auto simp: wf_likes_def list_all_iff)
  moreover have "list_all (\<lambda>l. like_id l < Suc (next_oid db)) (likes db)"
    using assms(1) by (auto simp: wf_likes_def list_all_iff)
  ultimately show ?thesis
    using assms(1)
    by (simp add: toggleVideoLike_absent[OF assms(2) None] wf_likes_def like_edge_def one_target_def)
next
  case (Some e)
  have d: "distinct (map like_id (likes db))"
    using assms(1) by (simp add: wf_likes_def)
  show ?thesis
    using assms(1)
    by (simp add: toggleVideoLike_present[OF assms(2) Some d] wf_likes_def
        distinct_map_remove1 list_all_remove1)
qed

lemma toggleVideoLike_twice:
  assumes "wf_likes db" and "findById video_id (videos db) i = Some target"
  shows "like_edges (snd (toggleVideoLike (snd (toggleVideoLike db u (Valid i))) u (Valid i))) = like_edges db"
proof (cases "find (\<lambda>l. like_video l = Some i \<and> likedBy l = user_id u) (likes db)")
  case None
  let ?new = "\<lparr> like_id = next_oid db, like_video = Some i, like_comment = None, like_tweet = None, likedBy = user_id u \<rparr>"
  let ?db1 = "db\<lparr> likes := likes db @ [?new], next_oid := Suc (next_oid db) \<rparr>"
  have 1: "snd (toggleVideoLike db u (Valid i)) = ?db1"
    by (simp add: toggleVideoLike_absent[OF assms(2) None])
  have f: "find (\<lambda>l. like_video l = Some i \<and> likedBy l = user_id u) (likes ?db1) = Some ?new"
    using None by (simp add: find_append_new)
  have fresh: "list_all (\<lambda>d. like_id d \<noteq> like_id ?new) (likes db)"
    using assms(1) by (auto simp: wf_likes_def list_all_iff)
  have del: "deleteOne like_id (like_id ?new) (likes db @ [?new]) = (likes db, 1)"
    using fresh by (rule deleteOne_append_new)
  have "snd (toggleVideoLike ?db1 u (Valid i)) = ?db1\<lparr> likes := likes db \<rparr>"
    using assms(2) f del by (simp add: toggleVideoLike_def)
  then show ?thesis by (simp add: 1 like_edges_def)
next
  case (Some e)
  have d: "distinct (map like_id (likes db))"
    and de: "distinct (map like_edge (likes db))"
    and ot: "list_all one_target (likes db)"
    using assms(1) by (simp_all add: wf_likes_def)
  have mem: "e \<in> set (likes db)" and pe: "like_video e = Some i \<and> likedBy e = user_id u"
    using Some by (auto dest: find_mem)
  have ee: "like_edge e = (user_id u, Some i, None, None)"
    using ot mem pe by (simp add: list_all_iff one_target_video[symmetric])
  let ?db1 = "db\<lparr> likes := remove1 e (likes db) \<rparr>"
  have 1: "snd (toggleVideoLike db u (Valid i)) = ?db1"
    by (simp add: toggleVideoLike_present[OF assms(2) Some d])
  have "list_all (\<lambda>d. (like_video d = Some i \<and> likedBy d = user_id u) = (like_edge d = like_edge e)) (likes db)"
    using ot by (simp add: list_all_iff ee one_target_video)
  then have none: "find (\<lambda>l. like_video l = Some i \<and> likedBy l = user_id u) (likes ?db1) = None"
    using find_after_remove1[OF de mem] by simp
  have t1: "findById video_id (videos ?db1) i = Some target" using assms(2) by simp
  have "like_edges (snd (toggleVideoLike ?db1 u (Valid i))) =
          set (map like_edge (remove1 e (likes db) @ [\<lparr> like_id = next_oid db, like_video = Some i, like_comment = None, like_tweet = None, likedBy = user_id u \<rparr>]))"
    by (simp add: toggleVideoLike_absent[OF t1 none] like_edges_def)
  also have "\<dots> = set (map like_edge (likes db))"
  proof -
    have ne: "like_edge (\<lparr> like_id = next_oid db, like_video = Some i, like_comment = None, like_tweet = None, likedBy = user_id u \<rparr>) = like_edge e"
      unfolding ee by (simp add: like_edge_def)
    show ?thesis by (rule edges_after_readd[OF de mem ne])
  qed
  finally show ?thesis by (simp add: 1 like_edges_def)
qed

lemma toggleVideoLike_once:
  assumes "findById video_id (videos db) i = Some target"
    and "find (\<lambda>l. like_video l = Some i \<and> likedBy l = user_id u) (likes db) = None"
  shows "like_documents (snd (toggleVideoLike db u (Valid i))) (user_id u, Some i, None, None) = 1"
proof -
  have "filter (\<lambda>l. like_edge l = (user_id u, Some i, None, None)) (likes db) = []"
    using assms(2) by (auto simp: find_None_iff filter_empty_conv like_edge_def)
  then show ?thesis
    by (simp add: toggleVideoLike_absent[OF assms] like_documents_def like_edge_def)
qed

lemma toggleCommentLike_absent:
  assumes "findById comment_id (comments db) i = Some target"
    and "find (\<lambda>l. like_comment l = Some i \<and> likedBy l = user_id u) (likes db) = None"
  shows "toggleCommentLike db u (Valid i) =
           (respond 200 (Envelope (new_ApiResponse 200 Empty_object (Some ''Comment liked successfully.''))),
            db\<lparr> likes := likes db @ [\<lparr> like_id = next_oid db, like_video = None, like_comment = Some i, like_tweet = None, likedBy = user_id u \<rparr>], next_oid := Suc (next_oid db) \<rparr>)"
  using assms by (simp add: toggleCommentLike_def)

lemma toggleCommentLike_present:
  assumes "findById comment_id (comments db) i = Some target"
    and "find (\<lambda>l. like_comment l = Some i \<and> likedBy l = user_id u) (likes db) = Some e"
    and "distinct (map like_id (likes db))"
  shows "toggleCommentLike db u (Valid i) =
           (respond 200 (Envelope (new_ApiResponse 200 Empty_object (Some ''Comment like removed successfully.''))),
            db\<lparr> likes := remove1 e (likes db) \<rparr>)"
proof -
  have "e \<in> set (likes db)" using assms(2) by (auto dest: find_mem)
  then have "deleteOne like_id (like_id e) (likes db) = (remove1 e (likes db), 1)"
    using assms(3) by (intro deleteOne_found)
  then show ?thesis
    using assms(1,2) by (simp add: toggleCommentLike_def)
qed

lemma toggleCommentLike_wf:
  assumes "wf_likes db" and "findById comment_id (comments db) i = Some target"
  shows "wf_likes (snd (toggleCommentLike db u (Valid i)))"
proof (cases "find (\<lambda>l. like_comment l = Some i \<and> likedBy l = user_id u) (likes db)")
  case None
  then have "(user_id u, None, Some i, None) \<notin> set (map like_edge (likes db))"
    by (auto simp: find_None_iff like_edge_def)
  moreover have "next_oid db \<notin> set (map like_id (likes db))"
    using assms(1) by (auto simp: wf_likes_def list_all_iff)
  moreover have "list_all (\<lambda>l. like_id l < Suc (next_oid db)) (likes db)"
    using assms(1) by (auto simp: wf_likes_def list_all_iff)
  ultimately show ?thesis
    using assms(1)
    by (simp add: toggleCommentLike_absent[OF assms(2) None] wf_likes_def like_edge_def one_target_def)
next
  case (Some e)
  have d: "distinct (map like_id (likes db))"
    using assms(1) by (simp add: wf_likes_def)
  show ?thesis
    using assms(1)
    by (simp add: toggleCommentLike_present[OF assms(2) Some d] wf_likes_def
        distinct_map_remove1 list_all_remove1)
qed

lemma toggleCommentLike_twice:
  assumes "wf_likes db" and "findById comment_id (comments db) i = Some target"
  shows "like_edges (snd (toggleCommentLike (snd (toggleCommentLike db u (Valid i))) u (Valid i))) = like_edges db"
proof (cases "find (\<lambda>l. like_comment l = Some i \<and> likedBy l = user_id u) (likes db)")
  case None
  let ?new = "\<lparr> like_id = next_oid db, like_video = None, like_comment = Some i, like_tweet = None, likedBy = user_id u \<rparr>"
  let ?db1 = "db\<lparr> likes := likes db @ [?new], next_oid := Suc (next_oid db) \<rparr>"
  have 1: "snd (toggleCommentLike db u (Valid i)) = ?db1"
    by (simp add: toggleCommentLike_absent[OF assms(2) None])
  have f: "find (\<lambda>l. like_comment l = Some i \<and> likedBy l = user_id u) (likes ?db1) = Some ?new"
    using None by (simp add: find_append_new)
  have fresh: "list_all (\<lambda>d. like_id d \<noteq> like_id ?new) (likes db)"
    using assms(1) by (auto simp: wf_likes_def list_all_iff)
  have del: "deleteOne like_id (like_id ?new) (likes db @ [?new]) = (likes db, 1)"
    using fresh by (rule deleteOne_append_new)
  have "snd (toggleCommentLike ?db1 u (Valid i)) = ?db1\<lparr> likes := likes db \<rparr>"
    using assms(2) f del by (simp add: toggleCommentLike_def)
  then show ?thesis by (simp add: 1 like_edges_def)
next
  case (Some e)
  have d: "distinct (map like_id (likes db))"
    and de: "distinct (map like_edge (likes db))"
    and ot: "list_all one_target (likes db)"
    using assms(1) by (simp_all add: wf_likes_def)
  have mem: "e \<in> set (likes db)" and pe: "like_comment e = Some i \<and> likedBy e = user_id u"
    using Some by (auto dest: find_mem)
  have ee: "like_edge e = (user_id u, None, Some i, None)"
    using ot mem pe by (simp add: list_all_iff one_target_comment[symmetric])
  let ?db1 = "db\<lparr> likes := remove1 e (likes db) \<rparr>"
  have 1: "snd (toggleCommentLike db u (Valid i)) = ?db1"
    by (simp add: toggleCommentLike_present[OF assms(2) Some d])
  have "list_all (\<lambda>d. (like_comment d = Some i \<and> likedBy d = user_id u) = (like_edge d = like_edge e)) (likes db)"
    using ot by (simp add: list_all_iff ee one_target_comment)
  then have none: "find (\<lambda>l. like_comment l = Some i \<and> likedBy l = user_id u) (likes ?db1) = None"
    using find_after_remove1[OF de mem] by simp
  have t1: "findById comment_id (comments ?db1) i = Some target" using assms(2) by simp
  have "like_edges (snd (toggleCommentLike ?db1 u (Valid i))) =
          set (map like_edge (remove1 e (likes db) @ [\<lparr> like_id = next_oid db, like_video = None, like_comment = Some i, like_tweet = None, likedBy = user_id u \<rparr>]))"
    by (simp add: toggleCommentLike_absent[OF t1 none] like_edges_def)
  also have "\<dots> = set (map like_edge (likes db))"
  proof -
    have ne: "like_edge (\<lparr> like_id = next_oid db, like_video = None, like_comment = Some i, like_tweet = None, likedBy = user_id u \<rparr>) = like_edge e"
      unfolding ee by (simp add: like_edge_def)
    show ?thesis by (rule edges_after_readd[OF de mem ne])
  qed
  finally show ?thesis by (simp add: 1 like_edges_def)
qed

lemma toggleCommentLike_once:
  assumes "findById comment_id (comments db) i = Some target"
    and "find (\<lambda>l. like_comment l = Some i \<and> likedBy l = user_id u) (likes db) = None"
  shows "like_documents (snd (toggleCommentLike db u (Valid i))) (user_id u, None, Some i, None) = 1"
proof -
  have "filter (\<lambda>l. like_edge l = (user_id u, None, Some i, None)) (likes db) = []"
    using assms(2) by (auto simp: find_None_iff filter_empty_conv like_edge_def)
  then show ?thesis
    by (simp add: toggleCommentLike_absent[OF assms] like_documents_def like_edge_def)
qed

lemma toggleTweetLike_absent:
  assumes "findById tweet_id (tweets db) i = Some target"
    and "find (\<lambda>l. like_tweet l = Some i \<and> likedBy l = user_id u) (likes db) = None"
  shows "toggleTweetLike db u (Valid i) =
           (respond 200 (Envelope (new_ApiResponse 200 Empty_object (Some ''Tweet liked successfully.''))),
            db\<lparr> likes := likes db @ [\<lparr> like_id = next_oid db, like_video = None, like_comment = None, like_tweet = Some i, likedBy = user_id u \<rparr>], next_oid := Suc (next_oid db) \<rparr>)"
  using assms by (simp add: toggleTweetLike_def)

lemma toggleTweetLike_present:
  assumes "findById tweet_id (tweets db) i = Some target"
    and "find (\<lambda>l. like_tweet l = Some i \<and> likedBy l = user_id u) (likes db) = Some e"
    and "distinct (map like_id (likes db))"
  shows "toggleTweetLike db u (Valid i) =
           (respond 200 (Envelope (new_ApiResponse 200 Empty_object (Some ''Tweet like removed successfully.''))),
            db\<lparr> likes := remove1 e (likes db) \<rparr>)"
proof -
  have "e \<in> set (likes db)" using assms(2) by (auto dest: find_mem)
  then have "deleteOne like_id (like_id e) (likes db) = (remove1 e (likes db), 1)"
    using assms(3) by (intro deleteOne_found)
  then show ?thesis
    using assms(1,2) by (simp add: toggleTweetLike_def)
qed

lemma toggleTweetLike_wf:
  assumes "wf_likes db" and "findById tweet_id (tweets db) i = Some target"
  shows "wf_likes (snd (toggleTweetLike db u (Valid i)))"
proof (cases "find (\<lambda>l. like_tweet l = Some i \<and> likedBy l = user_id u) (likes db)")
  case None
  then have "(user_id u, None, None, Some i) \<notin> set (map like_edge (likes db))"
    by (auto simp: find_None_iff like_edge_def)
  moreover have "next_oid db \<notin> set (map like_id (likes db))"
    using assms(1) by (auto simp: wf_likes_def list_all_iff)
  moreover have "list_all (\<lambda>l. like_id l < Suc (next_oid db)) (likes db)"
    using assms(1) by (auto simp: wf_likes_def list_all_iff)
  ultimately show ?thesis
    using assms(1)
    by (simp add: toggleTweetLike_absent[OF assms(2) None] wf_likes_def like_edge_def one_target_def)
next
  case (Some e)
  have d: "distinct (map like_id (likes db))"
    using assms(1) by (simp add: wf_likes_def)
  show ?thesis
    using assms(1)
    by (simp add: toggleTweetLike_present[OF assms(2) Some d] wf_likes_def
        distinct_map_remove1 list_all_remove1)
qed

lemma toggleTweetLike_twice:
  assumes "wf_likes db" and "findById tweet_id (tweets db) i = Some target"
  shows "like_edges (snd (toggleTweetLike (snd (toggleTweetLike db u (Valid i))) u (Valid i))) = like_edges db"
proof (cases "find (\<lambda>l. like_tweet l = Some i \<and> likedBy l = user_id u) (likes db)")
  case None
  let ?new = "\<lparr> like_id = next_oid db, like_video = None, like_comment = None, like_tweet = Some i, likedBy = user_id u \<rparr>"
  let ?db1 = "db\<lparr> likes := likes db @ [?new], next_oid := Suc (next_oid db) \<rparr>"
  have 1: "snd (toggleTweetLike db u (Valid i)) = ?db1"
    by (simp add: toggleTweetLike_absent[OF assms(2) None])
  have f: "find (\<lambda>l. like_tweet l = Some i \<and> likedBy l = user_id u) (likes ?db1) = Some ?new"
    using None by (simp add: find_append_new)
  have fresh: "list_all (\<lambda>d. like_id d \<noteq> like_id ?new) (likes db)"
    using assms(1) by (auto simp: wf_likes_def list_all_iff)
  have del: "deleteOne like_id (like_id ?new) (likes db @ [?new]) = (likes db, 1)"
    using fresh by (rule deleteOne_append_new)
  have "snd (toggleTweetLike ?db1 u (Valid i)) = ?db1\<lparr> likes := likes db \<rparr>"
    using assms(2) f del by (simp add: toggleTweetLike_def)
  then show ?thesis by (simp add: 1 like_edges_def)
next
  case (Some e)
  have d: "distinct (map like_id (likes db))"
    and de: "distinct (map like_edge (likes db))"
    and ot: "list_all one_target (likes db)"
    using assms(1) by (simp_all add: wf_likes_def)
  have mem: "e \<in> set (likes db)" and pe: "like_tweet e = Some i \<and> likedBy e = user_id u"
    using Some by (auto dest: find_mem)
  have ee: "like_edge e = (user_id u, None, None, Some i)"
    using ot mem pe by (simp add: list_all_iff one_target_tweet[symmetric])
  let ?db1 = "db\<lparr> likes := remove1 e (likes db) \<rparr>"
  have 1: "snd (toggleTweetLike db u (Valid i)) = ?db1"
    by (simp add: toggleTweetLike_present[OF assms(2) Some d])
  have "list_all (\<lambda>d. (like_tweet d = Some i \<and> likedBy d = user_id u) = (like_edge d = like_edge e)) (likes db)"
    using ot by (simp add: list_all_iff ee one_target_tweet)
  then have none: "find (\<lambda>l. like_tweet l = Some i \<and> likedBy l = user_id u) (likes ?db1) = None"
    using find_after_remove1[OF de mem] by simp
  have t1: "findById tweet_id (tweets ?db1) i = Some target" using assms(2) by simp
  have "like_edges (snd (toggleTweetLike ?db1 u (Valid i))) =
          set (map like_edge (remove1 e (likes db) @ [\<lparr> like_id = next_oid db, like_video = None, like_comment = None, like_tweet = Some i, likedBy = user_id u \<rparr>]))"
    by (simp add: toggleTweetLike_absent[OF t1 none] like_edges_def)
  also have "\<dots> = set (map like_edge (likes db))"
  proof -
    have ne: "like_edge (\<lparr> like_id = next_oid db, like_video = None, like_comment = None, like_tweet = Some i, likedBy = user_id u \<rparr>) = like_edge e"
      unfolding ee by (simp add: like_edge_def)
    show ?thesis by (rule edges_after_readd[OF de mem ne])
  qed
  finally show ?thesis by (simp add: 1 like_edges_def)
qed

lemma toggleTweetLike_once:
  assumes "findById tweet_id (tweets db) i = Some target"
    and "find (\<lambda>l. like_tweet l = Some i \<and> likedBy l = user_id u) (likes db) = None"
  shows "like_documents (snd (toggleTweetLike db u (Valid i))) (user_id u, None, None, Some i) = 1"
proof -
  have "filter (\<lambda>l. like_edge l = (user_id u, None, None, Some i)) (likes db) = []"
    using assms(2) by (auto simp: find_None_iff filter_empty_conv like_edge_def)
  then show ?thesis
    by (simp add: toggleTweetLike_absent[OF assms] like_documents_def like_edge_def)
qed

lemma subscription_absent:
  "(a, c) \<notin> subscription_edges db
     \<Longrightarrow> find (\<lambda>s. subscriber s = a \<and> channel s = c) (subscriptions db) = None"
  by (auto simp: find_None_iff subscription_edges_def subscription_edge_def image_iff)

lemma video_like_absent:
  assumes "list_all one_target (likes db)" and "(a, Some i, None, None) \<notin> like_edges db"
  shows "find (\<lambda>l. like_video l = Some i \<and> likedBy l = a) (likes db) = None"
proof -
  have "\<not> (like_video l = Some i \<and> likedBy l = a)" if "l \<in> set (likes db)" for l
  proof -
    have "one_target l" using assms(1) that by (simp add: list_all_iff)
    moreover have "like_edge l \<in> like_edges db" using that by (simp add: like_edges_def)
    then have "like_edge l \<noteq> (a, Some i, None, None)" using assms(2) by metis
    ultimately show ?thesis by (simp add: one_target_video)
  qed
  then show ?thesis by (auto simp: find_None_iff)
qed

lemma comment_like_absent:
  assumes "list_all one_target (likes db)" and "(a, None, Some i, None) \<notin> like_edges db"
  shows "find (\<lambda>l. like_comment l = Some i \<and> likedBy l = a) (likes db) = None"
proof -
  have "\<not> (like_comment l = Some i \<and> likedBy l = a)" if "l \<in> set (likes db)" for l
  proof -
    have "one_target l" using assms(1) that by (simp add: list_all_iff)
    moreover have "like_edge l \<in> like_edges db" using that by (simp add: like_edges_def)
    then have "like_edge l \<noteq> (a, None, Some i, None)" using assms(2) by metis
    ultimately show ?thesis by (simp add: one_target_comment)
  qed
  then show ?thesis by (auto simp: find_None_iff)
qed

lemma tweet_like_absent:
  assumes "list_all one_target (likes db)" and "(a, None, None, Some i) \<notin> like_edges db"
  shows "find (\<lambda>l. like_tweet l = Some i \<and> likedBy l = a) (likes db) = None"
proof -
  have "\<not> (like_tweet l = Some i \<and> likedBy l = a)" if "l \<in> set (likes db)" for l
  proof -
    have "one_target l" using assms(1) that by (simp add: list_all_iff)
    moreover have "like_edge l \<in> like_edges db" using that by (simp add: like_edges_def)
    then have "like_edge l \<noteq> (a, None, None, Some i)" using assms(2) by metis
    ultimately show ?thesis by (simp add: one_target_tweet)
  qed
  then show ?thesis by (auto simp: find_None_iff)
qed

lemma wf_no_edges:
  "subscriptions db = [] \<Longrightarrow> wf_subscriptions db" "likes db = [] \<Longrightarrow> wf_likes db"
  by (simp_all add: wf_subscriptions_def wf_likes_def)

text \<open>
  C4. Let the edge collection be well formed (unique ids, at most one document per
  edge, one target per like), as it is when empty and as every toggle leaves it, and
  let the target exist. Then for every caller \<open>u\<close> and each of the four toggles (a
  subscription to channel \<open>c\<close>, a like of video \<open>v\<close>, of comment \<open>k\<close>, of tweet \<open>t\<close>):
  applying the toggle twice leaves the set of (actor, target) edges equal to the
  original one; applying it once when the caller's edge is absent leaves exactly one
  document for that edge; and the collection is well formed again after the toggle.
\<close>

theorem toggle_twice_restores_edges:
  "(wf_subscriptions db \<and> findById user_id (users db) c = Some ch \<longrightarrow>
      subscription_edges (snd (toggleSubscription (snd (toggleSubscription db u (Valid c))) u (Valid c)))
        = subscription_edges db
      \<and> ((user_id u, c) \<notin> subscription_edges db \<longrightarrow>
           subscription_documents (snd (toggleSubscription db u (Valid c))) (user_id u, c) = 1)
      \<and> wf_subscriptions (snd (toggleSubscription db u (Valid c))))
   \<and> (wf_likes db \<and> findById video_id (videos db) v = Some vd \<longrightarrow>
      like_edges (snd (toggleVideoLike (snd (toggleVideoLike db u (Valid v))) u (Valid v))) = like_edges db
      \<and> ((user_id u, Some v, None, None) \<notin> like_edges db \<longrightarrow>
           like_documents (snd (toggleVideoLike db u (Valid v))) (user_id u, Some v, None, None) = 1)
      \<and> wf_likes (snd (toggleVideoLike db u (Valid v))))
   \<and> (wf_likes db \<and> findById comment_id (comments db) k = Some cm \<longrightarrow>
      like_edges (snd (toggleCommentLike (snd (toggleCommentLike db u (Valid k))) u (Valid k))) = like_edges db
      \<and> ((user_id u, None, Some k, None) \<notin> like_edges db \<longrightarrow>
           like_documents (snd (toggleCommentLike db u (Valid k))) (user_id u, None, Some k, None) = 1)
      \<and> wf_likes (snd (toggleCommentLike db u (Valid k))))
   \<and> (wf_likes db \<and> findById tweet_id (tweets db) t = Some tw \<longrightarrow>
      like_edges (snd (toggleTweetLike (snd (toggleTweetLike db u (Valid t))) u (Valid t))) = like_edges db
      \<and> ((user_id u, None, None, Some t) \<notin> like_edges db \<longrightarrow>
           like_documents (snd (toggleTweetLike db u (Valid t))) (user_id u, None, None, Some t) = 1)
      \<and> wf_likes (snd (toggleTweetLike db u (Valid t))))"
proof (intro conjI impI; elim conjE)
  assume w: "wf_subscriptions db" and e: "findById user_id (users db) c = Some ch"
  show "subscription_edges (snd (toggleSubscription (snd (toggleSubscription db u (Valid c))) u (Valid c)))
          = subscription_edges db"
    by (rule toggleSubscription_twice[OF w e])
  show "wf_subscriptions (snd (toggleSubscription db u (Valid c)))"
    by (rule toggleSubscription_wf[OF w e])
  assume "(user_id u, c) \<notin> subscription_edges db"
  then show "subscription_documents (snd (toggleSubscription db u (Valid c))) (user_id u, c) = 1"
    by (intro toggleSubscription_once[OF e] subscription_absent)
next
  assume w: "wf_likes db" and e: "findById video_id (videos db) v = Some vd"
  have ot: "list_all one_target (likes db)" using w by (simp add: wf_likes_def)
  show "like_edges (snd (toggleVideoLike (snd (toggleVideoLike db u (Valid v))) u (Valid v))) = like_edges db"
    by (rule toggleVideoLike_twice[OF w e])
  show "wf_likes (snd (toggleVideoLike db u (Valid v)))"
    by (rule toggleVideoLike_wf[OF w e])
  assume "(user_id u, Some v, None, None) \<notin> like_edges db"
  then show "like_documents (snd (toggleVideoLike db u (Valid v))) (user_id u, Some v, None, None) = 1"
    by (intro toggleVideoLike_once[OF e] video_like_absent[OF ot])
next
  assume w: "wf_likes db" and e: "findById comment_id (comments db) k = Some cm"
  have ot: "list_all one_target (likes db)" using w by (simp add: wf_likes_def)
  show "like_edges (snd (toggleCommentLike (snd (toggleCommentLike db u (Valid k))) u (Valid k))) = like_edges db"
    by (rule toggleCommentLike_twice[OF w e])
  show "wf_likes (snd (toggleCommentLike db u (Valid k)))"
    by (rule toggleCommentLike_wf[OF w e])
  assume "(user_id u, None, Some k, None) \<notin> like_edges db"
  then show "like_documents (snd (toggleCommentLike db u (Valid k))) (user_id u, None, Some k, None) = 1"
    by (intro toggleCommentLike_once[OF e] comment_like_absent[OF ot])
next
  assume w: "wf_likes db" and e: "findById tweet_id (tweets db) t = Some tw"
  have ot: "list_all one_target (likes db)" using w by (simp add: wf_likes_def)
  show "like_edges (snd (toggleTweetLike (snd (toggleTweetLike db u (Valid t))) u (Valid t))) = like_edges db"
    by (rule toggleTweetLike_twice[OF w e])
  show "wf_likes (snd (toggleTweetLike db u (Valid t)))"
    by (rule toggleTweetLike_wf[OF w e])
  assume "(user_id u, None, None, Some t) \<notin> like_edges db"
  then show "like_documents (snd (toggleTweetLike db u (Valid t))) (user_id u, None, None, Some t) = 1"
    by (intro toggleTweetLike_once[OF e] tweet_like_absent[OF ot])
qed

text \<open>
  The theorem at the database with content and the caller Ana, who has no edge yet:
  the hypotheses hold there, and so do the conclusions.
\<close>

theorem toggle_twice_restores_edges_witness:
  "wf_subscriptions db_content \<and> wf_likes db_content
   \<and> findById user_id (users db_content) 2 = Some bob
   \<and> findById video_id (videos db_content) 10 = Some video_10
   \<and> (1, 2) \<notin> subscription_edges db_content
   \<and> (1, Some 10, None, None) \<notin> like_edges db_content
   \<and> subscription_edges (snd (toggleSubscription (snd (toggleSubscription db_content ana (Valid 2))) ana (Valid 2)))
       = subscription_edges db_content
   \<and> subscription_documents (snd (toggleSubscription db_content ana (Valid 2))) (1, 2) = 1
   \<and> like_edges (snd (toggleVideoLike (snd (toggleVideoLike db_content ana (Valid 10))) ana (Valid 10)))
       = like_edges db_content
   \<and> like_documents (snd (toggleVideoLike db_content ana (Valid 10))) (1, Some 10, None, None) = 1"
proof -
  have h1: "wf_subscriptions db_content"
    by (simp add: wf_subscriptions_def db_content_def subscription_edge_def)
  have h2: "wf_likes db_content"
    by (simp add: wf_likes_def db_content_def like_edge_def one_target_def)
  have h3: "findById user_id (users db_content) 2 = Some bob"
    by (simp add: findById_def db_content_def ana_def bob_def)
  have h4: "findById video_id (videos db_content) 10 = Some video_10"
    by (simp add: findById_def db_content_def video_10_def)
  have a1: "(1, 2) \<notin> subscription_edges db_content"
    by (simp add: subscription_edges_def db_content_def subscription_edge_def)
  have a2: "(1, Some 10, None, None) \<notin> like_edges db_content"
    by (simp add: like_edges_def db_content_def like_edge_def)
  have u: "user_id ana = 1" by (simp add: ana_def)
  show ?thesis
    using toggle_twice_restores_edges[where db = db_content and u = ana and c = 2 and ch = bob
        and v = 10 and vd = video_10] h1 h2 h3 h4 a1 a2
    by (simp add: u)
qed

subsection \<open>C5: no video twice in a playlist\<close>

lemma list_all_save: "list_all P docs \<Longrightarrow> P d \<Longrightarrow> list_all P (save key d docs)"
  by (induction docs) (auto simp: save_def)

lemma list_all_remove_first: "list_all P docs \<Longrightarrow> list_all P (remove_first Q docs)"
  by (induction docs) auto

lemma list_all_deleteOne:
  "list_all P docs \<Longrightarrow> deleteOne key i docs = (remaining, n) \<Longrightarrow> list_all P remaining"
  by (auto simp: deleteOne_def list_all_remove_first split: option.splits)

lemma createPlaylist_distinct:
  "no_duplicate_videos db \<Longrightarrow> no_duplicate_videos (snd (createPlaylist db u name description'))"
  by (simp add: createPlaylist_def no_duplicate_videos_def)

lemma addVideoToPlaylist_distinct:
  assumes "no_duplicate_videos db"
  shows "no_duplicate_videos (snd (addVideoToPlaylist db u playlistId videoId))"
proof -
  have "list_all (\<lambda>p. distinct (playlist_videos p))
          (save playlist_id (p\<lparr> playlist_videos := playlist_videos p @ [video_id v] \<rparr>) (playlists db))"
    if "findById playlist_id (playlists db) pi = Some p" and "findById video_id (videos db) vi = Some v"
      and "\<not> list_ex (\<lambda>i. i = vi) (playlist_videos p)" for pi p vi v
  proof -
    have "distinct (playlist_videos p)"
      using assms findById_mem[OF that(1)] by (simp add: no_duplicate_videos_def list_all_iff)
    moreover have "video_id v \<notin> set (playlist_videos p)"
      using that(3) findById_key[OF that(2)] by (simp add: list_ex_iff)
    ultimately show ?thesis
      using assms by (intro list_all_save) (simp_all add: no_duplicate_videos_def)
  qed
  then show ?thesis
    using assms
    by (simp add: addVideoToPlaylist_def no_duplicate_videos_def split: id_param.splits option.splits)
qed

lemma removeVideoFromPlaylist_distinct:
  assumes "no_duplicate_videos db"
  shows "no_duplicate_videos (snd (removeVideoFromPlaylist db u playlistId videoId))"
proof -
  have "list_all (\<lambda>p. distinct (playlist_videos p))
          (save playlist_id (p\<lparr> playlist_videos := filter (\<lambda>i. i \<noteq> vi) (playlist_videos p) \<rparr>) (playlists db))"
    if "findById playlist_id (playlists db) pi = Some p" for pi p vi
  proof -
    have "distinct (playlist_videos p)"
      using assms findById_mem[OF that] by (simp add: no_duplicate_videos_def list_all_iff)
    then show ?thesis
      using assms by (intro list_all_save) (simp_all add: no_duplicate_videos_def)
  qed
  then show ?thesis
    using assms
    by (simp add: removeVideoFromPlaylist_def no_duplicate_videos_def split: id_param.splits option.splits)
qed

lemma deletePlaylist_distinct:
  assumes "no_duplicate_videos db"
  shows "no_duplicate_videos (snd (deletePlaylist db u playlistId))"
  using assms
  by (auto simp: deletePlaylist_def no_duplicate_videos_def split: id_param.splits option.splits prod.splits
      elim: list_all_deleteOne)

lemma updatePlaylist_distinct:
  assumes "no_duplicate_videos db"
  shows "no_duplicate_videos (snd (updatePlaylist db u playlistId name description'))"
proof -
  have "list_all (\<lambda>p. distinct (playlist_videos p))
          (save playlist_id (p\<lparr> playlist_name := name, playlist_description := description' \<rparr>) (playlists db))"
    if "findById playlist_id (playlists db) pi = Some p" for pi p
  proof -
    have "distinct (playlist_videos p)"
      using assms findById_mem[OF that] by (simp add: no_duplicate_videos_def list_all_iff)
    then show ?thesis
      using assms by (intro list_all_save) (simp_all add: no_duplicate_videos_def)
  qed
  then show ?thesis
    using assms
    by (simp add: updatePlaylist_def no_duplicate_videos_def split: id_param.splits option.splits)
qed

lemma addVideoToPlaylist_again:
  assumes "findById playlist_id (playlists db) pi = Some p" and "playlist_owner p = user_id u"
    and "vi \<in> set (playlist_videos p)"
  shows "addVideoToPlaylist db u (Valid pi) (Valid vi) =
           (if findById video_id (videos db) vi = None
            then respond 404 (ApiError 404 ''No video found.'')
            else respond 400 (ApiError 400 ''Video already inside playlist.''), db)"
  using assms by (auto simp: addVideoToPlaylist_def list_ex_iff split: option.splits)

text \<open>
  C5, as amended. In every playlist the list of videos holds no id twice, and each of
  the five playlist operations (create, add a video, remove a video, delete, update)
  keeps it so. When the owner adds a video that the playlist already contains, nothing
  in the database changes, and the reply is 400 "Video already inside playlist." if
  the video still exists and 404 "No video found." if it does not: the handler looks
  the video up before it looks into the playlist.
\<close>

theorem playlist_videos_stay_distinct:
  assumes "no_duplicate_videos db"
  shows "no_duplicate_videos (snd (createPlaylist db u name description'))
       \<and> no_duplicate_videos (snd (addVideoToPlaylist db u playlistId videoId))
       \<and> no_duplicate_videos (snd (removeVideoFromPlaylist db u playlistId videoId))
       \<and> no_duplicate_videos (snd (deletePlaylist db u playlistId))
       \<and> no_duplicate_videos (snd (updatePlaylist db u playlistId name description'))
       \<and> (findById playlist_id (playlists db) pi = Some p \<and> playlist_owner p = user_id u
            \<and> vi \<in> set (playlist_videos p) \<longrightarrow>
          addVideoToPlaylist db u (Valid pi) (Valid vi) =
            (if findById video_id (videos db) vi = None
             then respond 404 (ApiError 404 ''No video found.'')
             else respond 400 (ApiError 400 ''Video already inside playlist.''), db))"
  using createPlaylist_distinct[OF assms] addVideoToPlaylist_distinct[OF assms]
    removeVideoFromPlaylist_distinct[OF assms] deletePlaylist_distinct[OF assms]
    updatePlaylist_distinct[OF assms] addVideoToPlaylist_again
  by blast

text \<open>
  The theorem at the database with content: Bob adds video 10 to his playlist 35,
  which holds it already.
\<close>

theorem playlist_videos_stay_distinct_witness:
  "no_duplicate_videos db_content
   \<and> findById playlist_id (playlists db_content) 35 =
       Some \<lparr> playlist_id = 35, playlist_name = ''Mine'', playlist_description = ''All of them'',
              playlist_videos = [10], playlist_owner = 2 \<rparr>
   \<and> user_id bob = 2
   \<and> findById video_id (videos db_content) 10 = Some video_10
   \<and> addVideoToPlaylist db_content bob (Valid 35) (Valid 10) =
       (respond 400 (ApiError 400 ''Video already inside playlist.''), db_content)
   \<and> no_duplicate_videos (snd (addVideoToPlaylist db_content bob (Valid 35) (Valid 10)))
   \<and> no_duplicate_videos (snd (removeVideoFromPlaylist db_content bob (Valid 35) (Valid 10)))"
proof -
  have h: "no_duplicate_videos db_content"
    by (simp add: no_duplicate_videos_def db_content_def)
  have p: "findById playlist_id (playlists db_content) 35 =
       Some \<lparr> playlist_id = 35, playlist_name = ''Mine'', playlist_description = ''All of them'',
              playlist_videos = [10], playlist_owner = 2 \<rparr>"
    by (simp add: findById_def db_content_def)
  have b: "user_id bob = 2" by (simp add: bob_def)
  have v: "findById video_id (videos db_content) 10 = Some video_10"
    by (simp add: findById_def db_content_def video_10_def)
  show ?thesis
    using playlist_videos_stay_distinct[OF h, where u = bob and pi = 35 and vi = 10
        and playlistId = "Valid 35" and videoId = "Valid 10"
        and p = "\<lparr> playlist_id = 35, playlist_name = ''Mine'', playlist_description = ''All of them'',
              playlist_videos = [10], playlist_owner = 2 \<rparr>"] h p b v
    by simp
qed

text \<open>
  The claim as stated promises 400 for every playlist that already contains the video.
  Bob deletes his video 10 (reply 200), which leaves his playlist 35 as it was, still
  holding id 10; adding video 10 to the playlist again is then answered 404, not 400,
  and changes nothing.
\<close>

theorem add_deleted_video_again_counterexample:
  "http_status (fst (deleteVideo db_content bob (Valid 10) Destroyed Destroyed)) = 200
   \<and> videos db_video_deleted = []
   \<and> map playlist_id (playlists db_video_deleted) = [35]
   \<and> map playlist_owner (playlists db_video_deleted) = [user_id bob]
   \<and> map playlist_videos (playlists db_video_deleted) = [[10]]
   \<and> http_status (fst (addVideoToPlaylist db_video_deleted bob (Valid 35) (Valid 10))) = 404
   \<and> snd (addVideoToPlaylist db_video_deleted bob (Valid 35) (Valid 10)) = db_video_deleted"
  by (simp add: db_video_deleted_def deleteVideo_def db_content_def video_10_def bob_def findById_def
      deleteOne_def removeFromCloudinary_def respond_def addVideoToPlaylist_def new_ApiResponse_def)

subsection \<open>C6: existence is checked before ownership\<close>












subsection \<open>C7: replacing an image\<close>

text \<open>
  The avatar and the cover image handlers look at the upload's result before they
  remove anything: after an upload that failed in transport the remote store holds what
  it held, and after an upload that answered without a url it has lost nothing.
\<close>

lemma updateUserAvatar_failed_upload:
  "cloud (snd (updateUserAvatar db u f Transport_failure d)) = cloud db"
  by (simp add: updateUserAvatar_def uploadOnCloudinary_def unlinkSync_def split: option.splits)

lemma updateUserCoverImage_failed_upload:
  "cloud (snd (updateUserCoverImage db u f Transport_failure d)) = cloud db"
  by (simp add: updateUserCoverImage_def uploadOnCloudinary_def unlinkSync_def split: option.splits)

lemma updateUserAvatar_no_url:
  "response_url r = [] \<Longrightarrow> cloud db \<subseteq> cloud (snd (updateUserAvatar db u f (Uploaded r) d))"
  by (auto simp: updateUserAvatar_def uploadOnCloudinary_def unlinkSync_def split: option.splits)

lemma updateUserCoverImage_no_url:
  "response_url r = [] \<Longrightarrow> cloud db \<subseteq> cloud (snd (updateUserCoverImage db u f (Uploaded r) d))"
  by (auto simp: updateUserCoverImage_def uploadOnCloudinary_def unlinkSync_def split: option.splits)

text \<open>
  C7. The claim: in every image replacement, the thumbnail's included, the previous
  remote asset is removed only after the new upload is confirmed stored. The code at
  the request below: Bob replaces the thumbnail of his video 10 and the upload fails in
  transport. The reply is 500 "Error uploading thumbnail.", the video still names the
  asset \<^verbatim>\<open>thumb-10\<close> as its thumbnail, and that asset, which the store held before the
  request, is gone from the store.
\<close>

theorem updateVideoThumbnail_failed_upload_removes_previous:
  "''thumb-10'' \<in> cloud db_upload
   \<and> fst (updateVideoThumbnail db_upload bob (Valid 10) (Some ''/tmp/upload-1'') Transport_failure Destroyed)
       = Inr (respond 500 (ApiError 500 ''Error uploading thumbnail.''))
   \<and> ''thumb-10'' \<notin> cloud (snd (updateVideoThumbnail db_upload bob (Valid 10) (Some ''/tmp/upload-1'')
                                   Transport_failure Destroyed))
   \<and> map (\<lambda>v. publicId (thumbnail v))
         (videos (snd (updateVideoThumbnail db_upload bob (Valid 10) (Some ''/tmp/upload-1'')
                         Transport_failure Destroyed)))
       = [''thumb-10'']"
  by (simp add: updateVideoThumbnail_def db_upload_def db_content_def video_10_def bob_def findById_def
      uploadOnCloudinary_def unlinkSync_def removeFromCloudinary_def respond_def)

subsection \<open>C8: the upload delegate cleans up\<close>



subsection \<open>C10: an empty list is answered Not Found\<close>

lemma getAllVideos_empty:
  assumes "userId \<noteq> Malformed"
    and "getAllVideos_pipeline db rank regex page limit query sortBy sortType userId = Inr []"
  shows "getAllVideos db rank regex page limit query sortBy sortType userId =
           Inr (respond 404 (ApiError 404 ''No videos found''))"
  using assms by (cases userId) (simp_all add: getAllVideos_def)

lemma getAllVideos_found:
  assumes "userId \<noteq> Malformed"
    and "getAllVideos_pipeline db rank regex page limit query sortBy sortType userId = Inr (x # xs)"
  shows "getAllVideos db rank regex page limit query sortBy sortType userId =
           Inr (respond 200 (Envelope (new_ApiResponse 200 (Video_list (x # xs))
                                         (Some ''Videos fetched successfully.''))))"
  using assms by (cases userId) (simp_all add: getAllVideos_def)

lemma getUserTweets_empty:
  assumes "getUserTweets_pipeline db uid = []"
  shows "http_status (getUserTweets db (Valid uid)) = 404"
  using assms by (simp add: getUserTweets_def respond_def split: option.splits)

lemma getLikedVideos_empty:
  assumes "getLikedVideos_pipeline db u = []"
  shows "getLikedVideos db u = respond 404 (ApiError 404 ''No video found'')"
  using assms by (simp add: getLikedVideos_def)

lemma join_owner_Nil: "join_owner db owner_of [] = []"
  by (simp add: join_owner_def)

lemma getUserTweets_no_tweets:
  assumes "filter (\<lambda>t. tweet_owner t = uid) (tweets db) = []"
  shows "getUserTweets_pipeline db uid = []"
  using assms by (simp add: getUserTweets_pipeline_def join_owner_Nil)

lemma getLikedVideos_no_likes:
  assumes "filter (\<lambda>l. likedBy l = user_id u \<and> like_video l \<noteq> None) (likes db) = []"
  shows "getLikedVideos_pipeline db u = []"
  using assms by (simp add: getLikedVideos_pipeline_def)

lemma getAllVideos_no_videos:
  assumes "filter (\<lambda>v. video_owner v = owner) (videos db) = []"
    and "getAllVideos_pipeline db rank regex page limit query sortBy sortType (Valid owner) = Inr found"
  shows "found = []"
  using assms
  by (auto simp: getAllVideos_pipeline_def join_owner_Nil
      split: option.splits js_number.splits if_splits)

lemma getAllVideos_example:
  "getAllVideos db_content rank_example regex_example None None [] None None Absent =
     Inr (respond 200 (Envelope (new_ApiResponse 200
        (Video_list [(video_10, \<lparr> owner_fullName = ''Bob'', owner_username = ''bob'', owner_avatar = avatar bob \<rparr>)])
        (Some ''Videos fetched successfully.''))))"
  by (simp add: getAllVideos_def getAllVideos_pipeline_def db_content_def video_10_def join_owner_def
      owner_view_of_def findById_def ana_def bob_def rank_example_def)

text \<open>
  C10. Whenever the result set of a list request is empty, the reply is 404 and not an
  empty list with status 200. For \<^verbatim>\<open>getAllVideos\<close>: the user id is not malformed and the
  pipeline runs and yields nothing, in particular when the given owner has no videos.
  For \<^verbatim>\<open>getUserTweets\<close>: the pipeline yields nothing, in particular when the user has no
  tweets (or does not exist). For \<^verbatim>\<open>getLikedVideos\<close>: the pipeline yields nothing, in
  particular when the caller likes no video.
\<close>

theorem empty_list_is_not_found:
  "(userId \<noteq> Malformed
      \<and> getAllVideos_pipeline db rank regex page limit query sortBy sortType userId = Inr [] \<longrightarrow>
      getAllVideos db rank regex page limit query sortBy sortType userId =
        Inr (respond 404 (ApiError 404 ''No videos found'')))
   \<and> (filter (\<lambda>v. video_owner v = owner) (videos db) = []
      \<and> getAllVideos_pipeline db rank regex page limit query sortBy sortType (Valid owner) = Inr found \<longrightarrow>
      getAllVideos db rank regex page limit query sortBy sortType (Valid owner) =
        Inr (respond 404 (ApiError 404 ''No videos found'')))
   \<and> (getUserTweets_pipeline db uid = [] \<longrightarrow> http_status (getUserTweets db (Valid uid)) = 404)
   \<and> (filter (\<lambda>t. tweet_owner t = uid) (tweets db) = [] \<longrightarrow>
        http_status (getUserTweets db (Valid uid)) = 404)
   \<and> (getLikedVideos_pipeline db u = [] \<longrightarrow>
        getLikedVideos db u = respond 404 (ApiError 404 ''No video found''))
   \<and> (filter (\<lambda>l. likedBy l = user_id u \<and> like_video l \<noteq> None) (likes db) = [] \<longrightarrow>
        getLikedVideos db u = respond 404 (ApiError 404 ''No video found''))"
proof (intro conjI impI)
  assume "userId \<noteq> Malformed
      \<and> getAllVideos_pipeline db rank regex page limit query sortBy sortType userId = Inr []"
  then show "getAllVideos db rank regex page limit query sortBy sortType userId =
        Inr (respond 404 (ApiError 404 ''No videos found''))"
    by (simp add: getAllVideos_empty)
next
  assume a: "filter (\<lambda>v. video_owner v = owner) (videos db) = []
      \<and> getAllVideos_pipeline db rank regex page limit query sortBy sortType (Valid owner) = Inr found"
  then have "found = []"
    by (blast intro: getAllVideos_no_videos)
  with a show "getAllVideos db rank regex page limit query sortBy sortType (Valid owner) =
        Inr (respond 404 (ApiError 404 ''No videos found''))"
    by (simp add: getAllVideos_empty)
next
  assume "getUserTweets_pipeline db uid = []"
  then show "http_status (getUserTweets db (Valid uid)) = 404"
    by (rule getUserTweets_empty)
next
  assume "filter (\<lambda>t. tweet_owner t = uid) (tweets db) = []"
  then show "http_status (getUserTweets db (Valid uid)) = 404"
    by (intro getUserTweets_empty getUserTweets_no_tweets)
next
  assume "getLikedVideos_pipeline db u = []"
  then show "getLikedVideos db u = respond 404 (ApiError 404 ''No video found'')"
    by (rule getLikedVideos_empty)
next
  assume "filter (\<lambda>l. likedBy l = user_id u \<and> like_video l \<noteq> None) (likes db) = []"
  then show "getLikedVideos db u = respond 404 (ApiError 404 ''No video found'')"
    by (intro getLikedVideos_empty getLikedVideos_no_likes)
qed

text \<open>
  The theorem at the database with content, where Ana owns no video, wrote no tweet
  and likes nothing.
\<close>

theorem empty_list_is_not_found_witness:
  "Valid 1 \<noteq> Malformed
   \<and> getAllVideos_pipeline db_content rank_example regex_example None None [] None None (Valid 1) = Inr []
   \<and> getAllVideos db_content rank_example regex_example None None [] None None (Valid 1) =
        Inr (respond 404 (ApiError 404 ''No videos found''))
   \<and> getUserTweets_pipeline db_content 1 = []
   \<and> http_status (getUserTweets db_content (Valid 1)) = 404
   \<and> getLikedVideos_pipeline db_content ana = []
   \<and> getLikedVideos db_content ana = respond 404 (ApiError 404 ''No video found'')"
proof -
  have a: "getAllVideos_pipeline db_content rank_example regex_example None None [] None None (Valid 1) = Inr []"
    by (simp add: getAllVideos_pipeline_def db_content_def video_10_def join_owner_def)
  have t: "getUserTweets_pipeline db_content 1 = []"
    by (simp add: getUserTweets_pipeline_def db_content_def join_owner_def)
  have l: "getLikedVideos_pipeline db_content ana = []"
    by (simp add: getLikedVideos_pipeline_def db_content_def ana_def)
  show ?thesis
    using empty_list_is_not_found[of "Valid 1" db_content rank_example regex_example None None "[]" None None
        1 "[]" 1 ana] a t l
    by simp
qed

end
